theory Spec2Isabelle
  imports Complex_Main "HOL-Library.Sublist"
begin

section \<open>Values of the runtime\<close>

text \<open>
  The handler of \<^verbatim>\<open>api/generate.js\<close> reads values that arrive as JSON (the request
  body, the upstream reply) and tests them with \<^verbatim>\<open>typeof\<close>, truthiness and optional
  chaining. \<open>JUndefined\<close> stands for an absent property or an absent body. A string is the
  list of the bytes of its UTF-8 encoding: the key words, the disclaimer phrases and the
  white space of ASCII are single bytes that occur in no longer encoding, so substring
  search and matching on the bytes agree with the program's on its UTF-16 text.
\<close>

datatype json =
    JUndefined
  | JNull
  | JBool bool
  | JNum real
  | JStr string
  | JArr "json list"
  | JObj "(string \<times> json) list"

fun typeof :: "json \<Rightarrow> string" where
  "typeof JUndefined = ''undefined''"
| "typeof JNull = ''object''"
| "typeof (JBool b) = ''boolean''"
| "typeof (JNum n) = ''number''"
| "typeof (JStr s) = ''string''"
| "typeof (JArr xs) = ''object''"
| "typeof (JObj kvs) = ''object''"

text \<open>\<open>truthy v\<close> is \<^verbatim>\<open>!!v\<close>; \<open>nullish v\<close> is what \<^verbatim>\<open>v?.p\<close> short-circuits on.\<close>

fun truthy :: "json \<Rightarrow> bool" where
  "truthy JUndefined = False"
| "truthy JNull = False"
| "truthy (JBool b) = b"
| "truthy (JNum n) = (n \<noteq> 0)"
| "truthy (JStr s) = (s \<noteq> [])"
| "truthy (JArr xs) = True"
| "truthy (JObj kvs) = True"

fun nullish :: "json \<Rightarrow> bool" where
  "nullish JUndefined = True"
| "nullish JNull = True"
| "nullish v = False"

text \<open>
  A thrown value, as the \<^verbatim>\<open>catch\<close> block of the handler reads it:
  \<^verbatim>\<open>error.response?.status\<close>, \<^verbatim>\<open>error.code\<close> and \<^verbatim>\<open>error.message\<close>. A \<^verbatim>\<open>TypeError\<close> of
  the runtime has neither a response nor a code; the wording of its message is the
  engine's.
\<close>

record js_error =
  err_status :: "nat option"
  err_code :: "string option"
  err_message :: string

definition type_error :: "string \<Rightarrow> js_error" where
  "type_error msg = \<lparr>err_status = None, err_code = None, err_message = msg\<rparr>"

text \<open>
  A template literal \<^verbatim>\<open>${v}\<close> converts \<open>v\<close> to a string, and the conversion of an object
  can throw. It calls the \<^verbatim>\<open>toString\<close> method of the object and, when that is not
  callable, its \<^verbatim>\<open>valueOf\<close> method, and throws a \<^verbatim>\<open>TypeError\<close> when neither gives a
  primitive. An object of parsed JSON inherits both from \<^verbatim>\<open>Object.prototype\<close>. An own
  property \<^verbatim>\<open>toString\<close> hides the inherited method and is never callable, and
  \<^verbatim>\<open>valueOf\<close>, own or inherited, gives no primitive: the conversion throws. Without an
  own \<^verbatim>\<open>toString\<close> the object becomes \<^verbatim>\<open>[object Object]\<close>. An array is joined: each
  element other than \<open>null\<close> and \<open>undefined\<close> is converted in its turn.
\<close>

fun toString_throws :: "json \<Rightarrow> bool" where
  "toString_throws (JObj kvs) = (map_of kvs ''toString'' \<noteq> None)"
| "toString_throws (JArr xs) = list_ex toString_throws xs"
| "toString_throws v = False"

section \<open>String operations of the runtime\<close>

text \<open>\<^verbatim>\<open>s.includes(w)\<close>: \<open>w\<close> occurs in \<open>s\<close> at some position.\<close>

fun str_includes :: "string \<Rightarrow> string \<Rightarrow> bool" where
  "str_includes [] w = (w = [])"
| "str_includes (c # cs) w = (prefix w (c # cs) \<or> str_includes cs w)"

text \<open>
  \<^verbatim>\<open>s.toLowerCase()\<close>. The letters A to Z go to a to z. Two code points outside ASCII
  have a lower case with an ASCII letter in it: U+212A (Kelvin sign, bytes E2 84 AA)
  becomes \<open>k\<close>, and U+0130 (capital I with dot above, bytes C4 B0) becomes \<open>i\<close> followed
  by U+0307 (bytes CC 87). Every other byte is kept: the lower case of any other code
  point outside ASCII has no ASCII letter, so it changes no search for an ASCII word.
\<close>

definition lower_char :: "char \<Rightarrow> char" where
  "lower_char c =
     (case map_of (zip ''ABCDEFGHIJKLMNOPQRSTUVWXYZ'' ''abcdefghijklmnopqrstuvwxyz'') c of
        Some d \<Rightarrow> d
      | None \<Rightarrow> c)"

definition kelvin_sign :: string where
  "kelvin_sign = [CHR 0xE2, CHR 0x84, CHR 0xAA]"

definition capital_i_dotted :: string where
  "capital_i_dotted = [CHR 0xC4, CHR 0xB0]"

definition small_i_dotted :: string where
  "small_i_dotted = [CHR ''i'', CHR 0xCC, CHR 0x87]"

fun toLowerCase :: "string \<Rightarrow> string" where
  "toLowerCase (c # d # e # cs) =
     (if [c, d, e] = kelvin_sign then CHR ''k'' # toLowerCase cs
      else if [c, d] = capital_i_dotted then small_i_dotted @ toLowerCase (e # cs)
      else lower_char c # toLowerCase (d # e # cs))"
| "toLowerCase [c, d] =
     (if [c, d] = capital_i_dotted then small_i_dotted else [lower_char c, lower_char d])"
| "toLowerCase [c] = [lower_char c]"
| "toLowerCase [] = []"

text \<open>
  \<^verbatim>\<open>s.trim()\<close> removes the white space and the line terminators of ECMAScript from both
  ends. \<open>white_space\<close> lists their UTF-8 encodings: U+0009 to U+000D, U+0020, U+00A0,
  U+1680, U+2000 to U+200A, U+2028, U+2029, U+202F, U+205F, U+3000 and U+FEFF.
\<close>

definition white_space :: "string list" where
  "white_space =
     [[CHR 0x09], [CHR 0x0A], [CHR 0x0B], [CHR 0x0C], [CHR 0x0D], [CHR 0x20],
      [CHR 0xC2, CHR 0xA0],
      [CHR 0xE1, CHR 0x9A, CHR 0x80],
      [CHR 0xE2, CHR 0x80, CHR 0x80], [CHR 0xE2, CHR 0x80, CHR 0x81],
      [CHR 0xE2, CHR 0x80, CHR 0x82], [CHR 0xE2, CHR 0x80, CHR 0x83],
      [CHR 0xE2, CHR 0x80, CHR 0x84], [CHR 0xE2, CHR 0x80, CHR 0x85],
      [CHR 0xE2, CHR 0x80, CHR 0x86], [CHR 0xE2, CHR 0x80, CHR 0x87],
      [CHR 0xE2, CHR 0x80, CHR 0x88], [CHR 0xE2, CHR 0x80, CHR 0x89],
      [CHR 0xE2, CHR 0x80, CHR 0x8A],
      [CHR 0xE2, CHR 0x80, CHR 0xA8], [CHR 0xE2, CHR 0x80, CHR 0xA9],
      [CHR 0xE2, CHR 0x80, CHR 0xAF],
      [CHR 0xE2, CHR 0x81, CHR 0x9F],
      [CHR 0xE3, CHR 0x80, CHR 0x80],
      [CHR 0xEF, CHR 0xBB, CHR 0xBF]]"

text \<open>
  \<open>strip_leading ws s\<close> removes from the front of \<open>s\<close> one member of \<open>ws\<close> after the
  other, until \<open>s\<close> starts with none.
\<close>

function strip_leading :: "string list \<Rightarrow> string \<Rightarrow> string" where
  "strip_leading ws s =
     (case find (\<lambda>w. w \<noteq> [] \<and> prefix w s) ws of
        Some w \<Rightarrow> strip_leading ws (drop (length w) s)
      | None \<Rightarrow> s)"
  by pat_completeness auto
termination
proof (relation "measure (\<lambda>(ws, s). length s)")
  show "wf (measure (\<lambda>(ws, s). length s))" by simp
next
  fix ws :: "string list" and s w :: string
  assume "find (\<lambda>w. w \<noteq> [] \<and> prefix w s) ws = Some w"
  then have "w \<noteq> [] \<and> prefix w s" by (auto simp: find_Some_iff)
  then have "length w \<le> length s" "w \<noteq> []" by (auto simp: prefix_def)
  then show "((ws, drop (length w) s), (ws, s)) \<in> measure (\<lambda>(ws, s). length s)"
    by (cases w) auto
qed

declare strip_leading.simps [simp del]

definition trim :: "string \<Rightarrow> string" where
  "trim s = rev (strip_leading (map rev white_space) (rev (strip_leading white_space s)))"

text \<open>
  \<^verbatim>\<open>reply.replace(/as an ai|language model/gi, "")\<close>. The flag \<open>i\<close> without the flag
  \<open>u\<close> compares the upper case of single characters and never lets a character
  outside ASCII match an ASCII one, so a letter of a phrase matches exactly its two
  ASCII forms. The flag \<open>g\<close> makes the scan go on after each match: at every position
  the alternatives are tried in their order; a match is dropped and the scan resumes
  behind it, otherwise the character is kept and the scan moves one character on.
\<close>

definition upper_char :: "char \<Rightarrow> char" where
  "upper_char c =
     (case map_of (zip ''abcdefghijklmnopqrstuvwxyz'' ''ABCDEFGHIJKLMNOPQRSTUVWXYZ'') c of
        Some d \<Rightarrow> d
      | None \<Rightarrow> c)"

fun matches_at :: "string \<Rightarrow> string \<Rightarrow> bool" where
  "matches_at [] s = True"
| "matches_at (p # ps) [] = False"
| "matches_at (p # ps) (c # cs) = (upper_char p = upper_char c \<and> matches_at ps cs)"

definition match_length :: "string \<Rightarrow> nat option" where
  "match_length s =
     (if matches_at ''as an ai'' s then Some (length ''as an ai'')
      else if matches_at ''language model'' s then Some (length ''language model'')
      else None)"

function cleanText :: "string \<Rightarrow> string" where
  "cleanText [] = []"
| "cleanText (c # cs) =
     (case match_length (c # cs) of
        Some n \<Rightarrow> cleanText (drop n (c # cs))
      | None \<Rightarrow> c # cleanText cs)"
  by pat_completeness auto
termination
  by (relation "measure length") (auto simp: match_length_def split: if_splits)

declare cleanText.simps [simp del]

section \<open>The language heuristic\<close>

text \<open>
  \<^verbatim>\<open>detectLanguage(text)\<close>, lines 75 to 90. The guard returns before any method of
  \<open>text\<close> is called; \<open>call_toLowerCase\<close> is the method call \<^verbatim>\<open>text.toLowerCase()\<close>, which
  throws on a value that is not a string.
\<close>

definition swahiliWords :: "string list" where
  "swahiliWords = [''habari'', ''sasa'', ''niko'', ''kwani'', ''basi'', ''ndio'', ''karibu'',
     ''asante'', ''mambo'', ''poa'', ''sawa'']"

definition shengWords :: "string list" where
  "shengWords = [''bro'', ''maze'', ''manze'', ''noma'', ''fiti'', ''safi'', ''buda'', ''msee'',
     ''mwana'', ''poa'', ''vibe'']"

text \<open>\<^verbatim>\<open>words.filter((w) => lower.includes(w)).length\<close>\<close>

definition count_matches :: "string \<Rightarrow> string list \<Rightarrow> nat" where
  "count_matches lower words = length (filter (\<lambda>w. str_includes lower w) words)"

definition call_toLowerCase :: "json \<Rightarrow> js_error + string" where
  "call_toLowerCase v =
     (case v of
        JStr s \<Rightarrow> Inr (toLowerCase s)
      | _ \<Rightarrow> Inl (type_error ''text.toLowerCase is not a function''))"

definition detectLanguage :: "json \<Rightarrow> js_error + string" where
  "detectLanguage text =
     (if \<not> truthy text \<or> typeof text \<noteq> ''string'' then Inr ''english''
      else case call_toLowerCase text of
        Inl e \<Rightarrow> Inl e
      | Inr lower \<Rightarrow>
          (let swCount = count_matches lower swahiliWords;
               shCount = count_matches lower shengWords
           in if swCount + shCount = 0 then Inr ''english''
              else if swCount + shCount < 3 then Inr ''mixed''
              else Inr ''swahili''))"

section \<open>Conversation records\<close>

text \<open>
  A turn is an object \<^verbatim>\<open>{ role, content }\<close>. The record of a user is
  \<^verbatim>\<open>{ userId, lastProject, lastTask, conversation }\<close>. In a file the conversation is
  a list of turns; in the running handler it is an array of references to turn objects,
  so the record is polymorphic in what its conversation holds.
\<close>

record turn =
  role :: string
  content :: string

record 'c memory =
  userId :: json
  lastProject :: json
  lastTask :: json
  conversation :: "'c list"

text \<open>
  The objects of one request live in a heap, a list indexed by reference. Every
  reference the handler holds was returned by \<open>new_object\<close>, so it lies in the heap it
  is read from.
\<close>

type_synonym ref = nat
type_synonym heap = "turn list"

definition new_object :: "heap \<Rightarrow> turn \<Rightarrow> ref \<times> heap" where
  "new_object h t = (length h, h @ [t])"

fun new_objects :: "heap \<Rightarrow> turn list \<Rightarrow> ref list \<times> heap" where
  "new_objects h [] = ([], h)"
| "new_objects h (t # ts) =
     (let (r, h1) = new_object h t;
          (rs, h2) = new_objects h1 ts
      in (r # rs, h2))"

definition deref :: "heap \<Rightarrow> ref \<Rightarrow> turn" where
  "deref h r = h ! r"

text \<open>The persona preamble: the template literal of lines 42 to 57, byte for byte.\<close>

definition persona_preamble :: string where
  "persona_preamble = concat
    [[CHR 0x0A],
     ''You are **MaxMovies AI** '' @ [CHR 0xE2, CHR 0x80, CHR 0x94] @
       '' an expressive, helpful, brilliant film-focused digital assistant '' @
       [CHR 0xF0, CHR 0x9F, CHR 0xA4, CHR 0x96, CHR 0xF0, CHR 0x9F, CHR 0x8E, CHR 0xAC] @ ''.'' @
       [CHR 0x0A],
     [CHR 0x0A],
     [CHR 0xF0, CHR 0x9F, CHR 0x94, CHR 0xA5] @ '' BACKSTORY:'' @ [CHR 0x0A],
     [CHR 0xE2, CHR 0x80, CHR 0xA2] @ '' You were created by Max '' @
       [CHR 0xE2, CHR 0x80, CHR 0x94] @ '' a 21-year-old full-stack developer from Kenya '' @
       [CHR 0xF0, CHR 0x9F, CHR 0x87, CHR 0xB0, CHR 0xF0, CHR 0x9F, CHR 0x87, CHR 0xAA] @ ''.'' @
       [CHR 0x0A],
     [CHR 0xE2, CHR 0x80, CHR 0xA2] @
       '' Your core specialty is **movies, TV series, streaming content, characters, '' @
       ''plots, recommendations, trivia**.'' @ [CHR 0x0A],
     [CHR 0x0A],
     [CHR 0xF0, CHR 0x9F, CHR 0x8E, CHR 0xAC] @ '' ENTERTAINMENT INTELLIGENCE:'' @ [CHR 0x0A],
     [CHR 0xE2, CHR 0x80, CHR 0xA2] @
       '' Provide film/series recommendations, summaries, analysis, comparisons, '' @
       ''lore, viewing order guides, watchlists, and streaming suggestions.'' @ [CHR 0x0A],
     [CHR 0xE2, CHR 0x80, CHR 0xA2] @
       '' Explain genres, tropes, acting, cinematography, scoring, directing styles, '' @
       ''or franchise histories.'' @ [CHR 0x0A],
     [CHR 0xE2, CHR 0x80, CHR 0xA2] @
       '' Always stay spoiler-safe unless the user asks for spoilers.'' @ [CHR 0x0A],
     [CHR 0x0A],
     [CHR 0xF0, CHR 0x9F, CHR 0x92, CHR 0xA1] @ '' SPECIAL INSTRUCTION:'' @ [CHR 0x0A],
     [CHR 0xE2, CHR 0x80, CHR 0xA2] @
       '' MaxMovies AI is integrated into MaxMovies platform to help users find and '' @
       ''choose their favorite TV shows and movies.'' @ [CHR 0x0A],
     [CHR 0xE2, CHR 0x80, CHR 0xA2] @
       '' Only mention this integration if the user explicitly asks about your platform, '' @
       ''capabilities, or creator.'' @ [CHR 0x0A],
     ''        '']"

text \<open>
  What \<^verbatim>\<open>JSON.parse\<close> makes of a stored file. \<^verbatim>\<open>loadMemory\<close> returns it unchecked, and
  the file is found by a path built from the user id, which can name a JSON file that
  \<^verbatim>\<open>saveMemory\<close> never wrote. \<open>Record m\<close> is an object with an array of turns under
  \<^verbatim>\<open>conversation\<close>. \<open>Unusable msg\<close> is a value on which one of the lines 180 to 203
  throws. Lines 180 to 184 throw on every value that is not an object with an array
  under \<^verbatim>\<open>conversation\<close>, which is \<open>null\<close>, a number, a string, a boolean, an array, or
  an object whose \<^verbatim>\<open>conversation\<close> is missing or no array: the assignment to a property
  of \<open>null\<close> or of a primitive throws (the module is strict code), and so does the call
  of \<^verbatim>\<open>memory.conversation.push\<close>. Line 203 throws on a first turn of role \<open>system\<close>
  whose content cannot be converted to a string. What is thrown is a \<^verbatim>\<open>TypeError\<close>, and
  \<open>msg\<close> is its message. The elements of a stored \<^verbatim>\<open>conversation\<close> array on which none
  of these lines throws are taken to be turns.
\<close>

datatype 'c stored = Record "'c memory" | Unusable string

text \<open>
  \<^verbatim>\<open>loadMemory(userId)\<close>, lines 19 to 61. The memory directory is a map from the
  user id to what its file holds; \<open>None\<close> stands for a file that is absent, unreadable
  or not JSON, which all end in the default record. \<open>read_record\<close> is the record the
  handler works on when the file is not unusable. \<^verbatim>\<open>JSON.parse\<close> builds fresh objects, so
  the turns are allocated in the heap.
\<close>

definition default_memory :: "json \<Rightarrow> turn memory" where
  "default_memory uid =
     \<lparr>userId = uid, lastProject = JNull, lastTask = JNull,
      conversation = [\<lparr>role = ''system'', content = persona_preamble\<rparr>]\<rparr>"

definition read_record :: "(json \<Rightarrow> turn stored option) \<Rightarrow> json \<Rightarrow> turn memory" where
  "read_record dir uid =
     (case dir uid of Some (Record m) \<Rightarrow> m | _ \<Rightarrow> default_memory uid)"

definition loadMemory :: "(json \<Rightarrow> turn stored option) \<Rightarrow> json \<Rightarrow> heap \<Rightarrow> ref stored \<times> heap" where
  "loadMemory dir uid h =
     (case dir uid of
        Some (Unusable msg) \<Rightarrow> (Unusable msg, h)
      | _ \<Rightarrow>
          (let stored = read_record dir uid;
               (rs, h') = new_objects h (conversation stored)
           in (Record \<lparr>userId = userId stored, lastProject = lastProject stored,
                    lastTask = lastTask stored, conversation = rs\<rparr>, h')))"

text \<open>
  \<^verbatim>\<open>JSON.stringify(memory)\<close> in \<^verbatim>\<open>saveMemory\<close>, lines 64 to 72: the record as the file
  receives it, every reference replaced by the object it points to at that moment.
\<close>

definition stringify :: "heap \<Rightarrow> ref memory \<Rightarrow> turn memory" where
  "stringify h m =
     \<lparr>userId = userId m, lastProject = lastProject m, lastTask = lastTask m,
      conversation = map (deref h) (conversation m)\<rparr>"

text \<open>
  Lines 258 to 264: the history is cut to the first element and the last 19.
  \<^verbatim>\<open>xs.slice(-19)\<close> starts at \<open>length xs - 19\<close>, or at 0 for a shorter array.
\<close>

definition slice_last :: "nat \<Rightarrow> 'a list \<Rightarrow> 'a list" where
  "slice_last n xs = drop (length xs - n) xs"

definition limit_history :: "'a list \<Rightarrow> 'a list" where
  "limit_history conv =
     (if length conv > 20
      then (let systemMessage = conv ! 0;
                recentMessages = slice_last 19 conv
            in systemMessage # recentMessages)
      else conv)"

section \<open>The request handler\<close>

text \<open>
  What the handler reads from its surroundings: the two environment variables, the
  parser \<^verbatim>\<open>JSON.parse\<close> of the request body (\<open>None\<close> when it throws), the memory
  directory, and the upstream service, which answers a message list with the data of its response or rejects with an
  error. The file of a user is named after the user id, and the directory is indexed by
  the user id itself.

  What the handler does to its surroundings is returned as a list of effects, in the
  order they happen: \<open>ReadFile\<close> is the look-up of \<^verbatim>\<open>loadMemory\<close>, \<open>PostUpstream\<close> the call
  of \<^verbatim>\<open>axios.post\<close> with the messages as they are at that moment, \<open>WriteFile\<close> the call of
  \<^verbatim>\<open>fs.writeFileSync\<close> in \<^verbatim>\<open>saveMemory\<close>, whose failure is caught and logged there. Log
  output is not an effect of the model.
\<close>

record env =
  DEEPSEEK_API_KEY :: "string option"
  NODE_ENV :: "string option"
  JSON_parse :: "string \<Rightarrow> json option"
  memory_dir :: "json \<Rightarrow> turn stored option"
  axios_post :: "turn list \<Rightarrow> js_error + json"

datatype effect =
    ReadFile json
  | PostUpstream "turn list"
  | WriteFile json "turn memory"

record request =
  req_method :: string
  req_body :: json

record response =
  res_status :: nat
  res_json :: json

text \<open>A step of the handler goes on with a value, returns a response, or throws.\<close>

datatype 'a step = Continue 'a | Respond response | Throw js_error

text \<open>
  \<^verbatim>\<open>v.name\<close> for the property names the handler uses, none of which is a built-in
  property of a string, a number, a boolean or an array; and \<^verbatim>\<open>v[0]\<close>. An object
  lists each of its keys once.
\<close>

definition property :: "json \<Rightarrow> string \<Rightarrow> json" where
  "property v name =
     (case v of
        JObj kvs \<Rightarrow> (case map_of kvs name of Some x \<Rightarrow> x | None \<Rightarrow> JUndefined)
      | _ \<Rightarrow> JUndefined)"

definition first_element :: "json \<Rightarrow> json" where
  "first_element v =
     (case v of
        JArr xs \<Rightarrow> (case xs of [] \<Rightarrow> JUndefined | x # _ \<Rightarrow> x)
      | JStr s \<Rightarrow> (case s of [] \<Rightarrow> JUndefined | c # _ \<Rightarrow> JStr [c])
      | _ \<Rightarrow> property v ''0'')"

text \<open>Lines 150 to 160: a body that is a string is parsed, any other is taken as it is.\<close>

definition read_body :: "env \<Rightarrow> request \<Rightarrow> json step" where
  "read_body env req =
     (if typeof (req_body req) = ''string''
      then (case req_body req of
              JStr s \<Rightarrow>
                (case JSON_parse env s of
                   Some body \<Rightarrow> Continue body
                 | None \<Rightarrow>
                     Respond \<lparr>res_status = 400,
                       res_json = JObj [(''error'', JStr ''Invalid JSON in request body'')]\<rparr>)
            | body \<Rightarrow> Continue body)
      else Continue (req_body req))"

text \<open>
  Line 162: \<^verbatim>\<open>const { prompt, project, userId = "default" } = body\<close>. Destructuring
  \<open>undefined\<close> or \<open>null\<close> throws a \<^verbatim>\<open>TypeError\<close>; the default of \<open>userId\<close> is taken
  when the property is \<open>undefined\<close>.
\<close>

definition userId_of :: "json \<Rightarrow> json" where
  "userId_of body =
     (case property body ''userId'' of JUndefined \<Rightarrow> JStr ''default'' | u \<Rightarrow> u)"

definition destructure :: "json \<Rightarrow> (json \<times> json \<times> json) step" where
  "destructure body =
     (if nullish body
      then Throw (type_error
             (''Cannot destructure property 'prompt' of 'body' as it is ''
              @ (if body = JNull then ''null'' else ''undefined'') @ ''.''))
      else Continue (property body ''prompt'', property body ''project'', userId_of body))"

text \<open>
  Line 163: the log line \<^verbatim>\<open>User ID: ${userId}\<close> converts the user id to a string, inside
  the \<^verbatim>\<open>try\<close> block and before the prompt is looked at.
\<close>

definition log_userId :: "json \<Rightarrow> unit step" where
  "log_userId uid =
     (if toString_throws uid
      then Throw (type_error ''Cannot convert object to primitive value'')
      else Continue ())"

text \<open>
  Lines 164 to 175. The log line calls \<^verbatim>\<open>prompt?.substring(0, 100)\<close>, which throws for
  a prompt that is neither nullish nor a string; then the check
  \<^verbatim>\<open>!prompt || prompt.trim() === ''\<close>.
\<close>

definition missing_prompt :: response where
  "missing_prompt =
     \<lparr>res_status = 400,
      res_json = JObj
        [(''error'', JStr ''Missing or empty prompt parameter.''),
         (''example'', JObj
            [(''prompt'', JStr ''What movies do you recommend?''),
             (''userId'', JStr ''optional_user_id'')])]\<rparr>"

definition check_prompt :: "json \<Rightarrow> string step" where
  "check_prompt prompt =
     (if \<not> nullish prompt \<and> typeof prompt \<noteq> ''string''
      then Throw (type_error ''prompt?.substring is not a function'')
      else if \<not> truthy prompt then Respond missing_prompt
      else (case prompt of
              JStr p \<Rightarrow> if trim p = [] then Respond missing_prompt else Continue p
            | _ \<Rightarrow> Throw (type_error ''prompt.trim is not a function'')))"

text \<open>Lines 191 to 198.\<close>

definition languageInstruction :: "string \<Rightarrow> string" where
  "languageInstruction lang =
     (if lang = ''swahili''
      then ''Respond fully in Swahili or Sheng naturally depending on tone.''
      else if lang = ''mixed''
      then ''Respond bilingually '' @ [CHR 0xE2, CHR 0x80, CHR 0x94] @
           '' mostly English, with natural Swahili/Sheng flavor.''
      else ''Respond in English, friendly Kenyan developer tone.'')"

text \<open>
  Lines 200 to 204. \<^verbatim>\<open>[...memory.conversation]\<close> copies the array of references, not
  the objects: \<open>messages\<close> and \<open>memory.conversation\<close> are two arrays over the same turn
  objects, and \<^verbatim>\<open>messages[0].content += ...\<close> writes to the object both hold first.
\<close>

definition add_instruction :: "heap \<Rightarrow> ref list \<Rightarrow> string \<Rightarrow> heap" where
  "add_instruction h messages instruction =
     (case messages of
        [] \<Rightarrow> h
      | m0 # _ \<Rightarrow>
          if role (deref h m0) = ''system''
          then h[m0 := (deref h m0)\<lparr>content :=
                         content (deref h m0) @ [CHR 0x0A, CHR 0x0A] @ instruction\<rparr>]
          else h)"

text \<open>
  Lines 249 and 250:
  \<^verbatim>\<open>deepSeekResponse.data?.choices?.[0]?.message?.content || "I apologize, ..."\<close>.
\<close>

definition optional :: "(json \<Rightarrow> json) \<Rightarrow> json \<Rightarrow> json" where
  "optional access v = (if nullish v then JUndefined else access v)"

definition assistantReply :: "json \<Rightarrow> json" where
  "assistantReply data =
     (let c = optional (\<lambda>v. property v ''content'')
                (optional (\<lambda>v. property v ''message'')
                  (optional first_element
                    (optional (\<lambda>v. property v ''choices'') data)))
      in if truthy c then c
         else JStr ''I apologize, but I couldn't generate a response. Please try again.'')"

text \<open>
  Lines 252 to 279. The log line \<^verbatim>\<open>${assistantReply.length}\<close> converts the length of
  the reply to a string: a number for a string and for an array, \<open>undefined\<close> for a
  number and for \<open>true\<close>, and for an object whatever its own property \<^verbatim>\<open>length\<close> holds.
  Then the reply is cleaned and appended, the history is cut, the record is saved and
  the response is built. \<^verbatim>\<open>replace\<close> is a method of strings only.
\<close>

definition finish :: "json \<Rightarrow> ref memory \<Rightarrow> heap \<Rightarrow> json \<Rightarrow> (js_error + response) \<times> effect list" where
  "finish uid memory h reply =
     (case reply of
        JStr s \<Rightarrow>
          (let clean = cleanText s;
               (r, h1) = new_object h \<lparr>role = ''assistant'', content = clean\<rparr>;
               memory1 = memory\<lparr>conversation := conversation memory @ [r]\<rparr>;
               memory2 = memory1\<lparr>conversation := limit_history (conversation memory1)\<rparr>
           in (Inr \<lparr>res_status = 200,
                    res_json = JObj
                      [(''reply'', JStr clean),
                       (''memory'', JObj
                          [(''lastProject'', lastProject memory2),
                           (''conversationLength'', JNum (real (length (conversation memory2)))),
                           (''userId'', uid)])]\<rparr>,
               [WriteFile uid (stringify h1 memory2)]))
      | JObj kvs \<Rightarrow>
          (if toString_throws (property reply ''length'')
           then (Inl (type_error ''Cannot convert object to primitive value''), [])
           else (Inl (type_error ''assistantReply.replace is not a function''), []))
      | _ \<Rightarrow> (Inl (type_error ''assistantReply.replace is not a function''), []))"

text \<open>
  Lines 177 to 266, for a prompt that passed the check. On an unusable file one of the
  lines 180 to 203 throws, after the file was read and before the credential is looked
  at.
\<close>

definition config_error :: response where
  "config_error =
     \<lparr>res_status = 500,
      res_json = JObj
        [(''error'', JStr ''Server configuration error''),
         (''message'', JStr ''API key is not configured'')]\<rparr>"

definition converse :: "env \<Rightarrow> string \<Rightarrow> json \<Rightarrow> json \<Rightarrow> (js_error + response) \<times> effect list" where
  "converse env prompt project uid =
     (let (loaded, h0) = loadMemory (memory_dir env) uid []
      in case loaded of
           Unusable msg \<Rightarrow> (Inl (type_error msg), [ReadFile uid])
         | Record memory0 \<Rightarrow>
             (let memory1 = (if truthy project then memory0\<lparr>lastProject := project\<rparr>
                             else memory0);
                  memory2 = memory1\<lparr>lastTask := JStr prompt\<rparr>;
                  (r, h1) = new_object h0 \<lparr>role = ''user'', content = prompt\<rparr>;
                  memory3 = memory2\<lparr>conversation := conversation memory2 @ [r]\<rparr>
              in case detectLanguage (JStr prompt) of
                   Inl e \<Rightarrow> (Inl e, [ReadFile uid])
                 | Inr lang \<Rightarrow>
                     (let messages = conversation memory3;
                          h2 = add_instruction h1 messages (languageInstruction lang)
                      in if DEEPSEEK_API_KEY env = None \<or> DEEPSEEK_API_KEY env = Some []
                         then (Inr config_error, [ReadFile uid])
                         else (case axios_post env (map (deref h2) messages) of
                                 Inl e \<Rightarrow>
                                   (Inl e,
                                    [ReadFile uid, PostUpstream (map (deref h2) messages)])
                               | Inr data \<Rightarrow>
                                   (let (result, effects) =
                                          finish uid memory3 h2 (assistantReply data)
                                    in (result,
                                        [ReadFile uid,
                                         PostUpstream (map (deref h2) messages)]
                                        @ effects))))))"

text \<open>The \<^verbatim>\<open>try\<close> block, lines 146 to 280.\<close>

definition try_block :: "env \<Rightarrow> request \<Rightarrow> (js_error + response) \<times> effect list" where
  "try_block env req =
     (case read_body env req of
        Throw e \<Rightarrow> (Inl e, [])
      | Respond r \<Rightarrow> (Inr r, [])
      | Continue body \<Rightarrow>
          (case destructure body of
             Throw e \<Rightarrow> (Inl e, [])
           | Respond r \<Rightarrow> (Inr r, [])
           | Continue (prompt, project, uid) \<Rightarrow>
               (case log_userId uid of
                  Throw e \<Rightarrow> (Inl e, [])
                | Respond r \<Rightarrow> (Inr r, [])
                | Continue u \<Rightarrow>
                    (case check_prompt prompt of
                       Throw e \<Rightarrow> (Inl e, [])
                     | Respond r \<Rightarrow> (Inr r, [])
                     | Continue p \<Rightarrow> converse env p project uid))))"

text \<open>The \<^verbatim>\<open>catch\<close> block, lines 281 to 321.\<close>

definition catch_block :: "env \<Rightarrow> js_error \<Rightarrow> response" where
  "catch_block env error =
     (let (errorMessage, statusCode, details) =
            (if err_status error = Some 401
             then (''API key is invalid or missing.'', 401,
                   JStr ''Check your DEEPSEEK_API_KEY environment variable'')
             else if err_status error = Some 429
             then (''Rate limit exceeded. Please try again later.'', 429, JNull)
             else if err_code error = Some ''ECONNABORTED''
             then (''Request timeout. Please try again.'', 408, JNull)
             else if str_includes (err_message error) ''ENOENT''
             then (''File system error.'', 500, JNull)
             else (''Server error. Please try again.'', 500, JNull))
      in \<lparr>res_status = statusCode,
          res_json = JObj
            [(''error'', JStr errorMessage),
             (''details'',
                if truthy details then details
                else if NODE_ENV env = Some ''development'' then JStr (err_message error)
                else JUndefined)]\<rparr>)"

text \<open>The handler, lines 93 to 322. The CORS headers, set on every path, are left out.\<close>

definition api_info :: json where
  "api_info = JObj
     [(''status'', JStr ''online''),
      (''service'', JStr ''MaxMovies AI Assistant''),
      (''version'', JStr ''1.0.0''),
      (''endpoints'', JObj
         [(''generate'', JObj
            [(''method'', JStr ''POST''),
             (''description'', JStr ''Chat with the AI''),
             (''body'', JObj
                [(''prompt'', JStr ''string (required)''),
                 (''userId'', JStr ''string (optional, default: 'default')''),
                 (''project'', JStr ''string (optional)'')])])])]"

definition handler :: "env \<Rightarrow> request \<Rightarrow> response \<times> effect list" where
  "handler env req =
     (if req_method req = ''OPTIONS'' then (\<lparr>res_status = 200, res_json = JUndefined\<rparr>, [])
      else if req_method req = ''GET'' then (\<lparr>res_status = 200, res_json = api_info\<rparr>, [])
      else if req_method req \<noteq> ''POST''
      then (\<lparr>res_status = 405,
             res_json = JObj
               [(''error'', JStr (''Method '' @ req_method req @
                                   '' not allowed. Use POST or GET for testing.'')),
                (''allowed'', JArr [JStr ''POST'', JStr ''GET'', JStr ''OPTIONS''])]\<rparr>, [])
      else (case try_block env req of
              (Inr r, effects) \<Rightarrow> (r, effects)
            | (Inl e, effects) \<Rightarrow> (catch_block env e, effects)))"

section \<open>Notions the properties are stated with\<close>

text \<open>
  The lower case of a text, stated on the codes of its characters and without the
  program's \<open>toLowerCase\<close>. A letter A to Z, code 65 to 90, becomes the letter 32 codes
  further on. The Kelvin sign, bytes E2 84 AA, becomes \<open>k\<close>; the capital I with dot
  above, bytes C4 B0, becomes \<open>i\<close> with the combining dot, bytes 69 CC 87. Every other
  byte stays as it is.
\<close>

definition ascii_lower :: "char \<Rightarrow> char" where
  "ascii_lower c =
     (if 65 \<le> (of_char c :: nat) \<and> (of_char c :: nat) \<le> 90
      then char_of (of_char c + 32 :: nat) else c)"

function lower_cased :: "string \<Rightarrow> string" where
  "lower_cased t =
     (if t = [] then []
      else if prefix [CHR 0xE2, CHR 0x84, CHR 0xAA] t then CHR 0x6B # lower_cased (drop 3 t)
      else if prefix [CHR 0xC4, CHR 0xB0] t
      then [CHR 0x69, CHR 0xCC, CHR 0x87] @ lower_cased (drop 2 t)
      else ascii_lower (hd t) # lower_cased (tl t))"
  by pat_completeness auto
termination
  by (relation "measure length") (auto simp: prefix_def)

declare lower_cased.simps [simp del]

text \<open>
  The count of the specification: the terms of the Swahili list and the terms of the
  Sheng list that occur as substrings of the lower case of the text, added up.
\<close>

definition term_hits :: "string \<Rightarrow> nat" where
  "term_hits t =
     length (filter (\<lambda>w. sublist w (lower_cased t)) swahiliWords)
     + length (filter (\<lambda>w. sublist w (lower_cased t)) shengWords)"

text \<open>
  The same count on what the program's \<open>toLowerCase\<close> returns, for the description of
  the messages the handler builds.
\<close>

definition keyword_hits :: "string \<Rightarrow> nat" where
  "keyword_hits t =
     length (filter (\<lambda>w. sublist w (toLowerCase t)) swahiliWords)
     + length (filter (\<lambda>w. sublist w (toLowerCase t)) shengWords)"

text \<open>The three classes of the language heuristic, by the number of hits.\<close>

definition classify :: "string \<Rightarrow> string" where
  "classify t =
     (if keyword_hits t = 0 then ''english''
      else if keyword_hits t < 3 then ''mixed''
      else ''swahili'')"







text \<open>
  The turn objects of the request after lines 179 to 204, in the order they were
  allocated: the turns loaded from \<open>ts\<close>, then the user turn, with the tone instruction
  where \<open>add_instruction\<close> has written it. The references of \<open>memory.conversation\<close> and of
  \<open>messages\<close> at that point are \<open>0\<close> to \<open>length ts\<close>.
\<close>

definition tuned :: "turn list \<Rightarrow> string \<Rightarrow> turn list" where
  "tuned ts p =
     add_instruction (ts @ [\<lparr>role = ''user'', content = p\<rparr>])
       ([0..<length ts] @ [length ts]) (languageInstruction (classify p))"

text \<open>
  A POST request whose body, as received or as parsed, is \<open>body\<close> and carries the prompt
  \<open>p\<close>, a string that is not empty and not white space only.
\<close>

definition prompt_post :: "env \<Rightarrow> request \<Rightarrow> json \<Rightarrow> string \<Rightarrow> bool" where
  "prompt_post env req body p \<longleftrightarrow>
     req_method req = ''POST'' \<and> read_body env req = Continue body \<and> \<not> nullish body
     \<and> property body ''prompt'' = JStr p \<and> trim p \<noteq> []"

text \<open>A file the handler can work on: none at all, or one that holds a record.\<close>

definition usable :: "'c stored option \<Rightarrow> bool" where
  "usable f = (case f of Some (Unusable msg) \<Rightarrow> False | _ \<Rightarrow> True)"

text \<open>
  A POST request that reaches the conversation of its user: it carries the prompt \<open>p\<close>,
  a string that is not empty and not white space only, its user id can be converted to
  a string, and the file of the user is usable.
\<close>

definition valid_post :: "env \<Rightarrow> request \<Rightarrow> json \<Rightarrow> string \<Rightarrow> bool" where
  "valid_post env req body p \<longleftrightarrow>
     prompt_post env req body p
     \<and> \<not> toString_throws (userId_of body) \<and> usable (memory_dir env (userId_of body))"

text \<open>
  The records the system produces: the default record of \<open>loadMemory\<close>, and every record
  the handler writes when each record in a file of the memory directory is one the
  system produced.
\<close>

inductive produced :: "turn memory \<Rightarrow> bool" where
  fresh: "produced (default_memory uid)"
| written:
    "(\<forall>u m. memory_dir env u = Some (Record m) \<longrightarrow> produced m) \<Longrightarrow>
     WriteFile uid m' \<in> set (snd (handler env req)) \<Longrightarrow> produced m'"

section \<open>Test doubles\<close>

text \<open>
  Surroundings for running the handler on concrete requests: an upstream service that
  answers every call with one reply text, one that rejects every call with one error,
  an environment built from a credential, the records of a memory directory and an
  upstream service (no \<^verbatim>\<open>NODE_ENV\<close>; bodies arrive parsed, so the parser is never
  asked), and a POST request with a parsed body.
\<close>

definition upstream_says :: "string \<Rightarrow> turn list \<Rightarrow> js_error + json" where
  "upstream_says s messages =
     Inr (JObj [(''choices'', JArr [JObj [(''message'', JObj [(''content'', JStr s)])]])])"

definition upstream_fails :: "js_error \<Rightarrow> turn list \<Rightarrow> js_error + json" where
  "upstream_fails e messages = Inl e"

definition test_env ::
  "string option \<Rightarrow> (json \<Rightarrow> turn memory option) \<Rightarrow> (turn list \<Rightarrow> js_error + json) \<Rightarrow> env" where
  "test_env key dir upstream =
     \<lparr>DEEPSEEK_API_KEY = key, NODE_ENV = None, JSON_parse = (\<lambda>s. None),
      memory_dir = (\<lambda>u. map_option Record (dir u)), axios_post = upstream\<rparr>"

definition post :: "json \<Rightarrow> request" where
  "post body = \<lparr>req_method = ''POST'', req_body = body\<rparr>"

text \<open>A stored record of 20 turns: the system turn and 19 earlier turns.\<close>

definition full_record :: "turn memory" where
  "full_record =
     \<lparr>userId = JStr ''default'', lastProject = JNull, lastTask = JNull,
      conversation =
        \<lparr>role = ''system'', content = persona_preamble\<rparr>
        # map (\<lambda>c. \<lparr>role = ''user'', content = [c]\<rparr>) ''abcdefghijklmnopqrs''\<rparr>"

section \<open>Auxiliary functions\<close>



section \<open>Properties of the language heuristic\<close>

lemma str_includes_sublist: "str_includes s w = sublist w s"
  by (induction s) (simp_all add: sublist_Cons_right)

lemma count_matches_sublist:
  "count_matches lower ws = length (filter (\<lambda>w. sublist w lower) ws)"
  by (simp add: count_matches_def str_includes_sublist)

lemma keyword_hits_count:
  "keyword_hits t =
     count_matches (toLowerCase t) swahiliWords + count_matches (toLowerCase t) shengWords"
  by (simp add: keyword_hits_def count_matches_sublist)

lemma keyword_hits_empty: "keyword_hits [] = 0"
  by (simp add: keyword_hits_def swahiliWords_def shengWords_def)

lemma detectLanguage_string:
  "detectLanguage (JStr t) =
     Inr (if keyword_hits t = 0 then ''english''
          else if keyword_hits t < 3 then ''mixed'' else ''swahili'')"
proof (cases "t = []")
  case True
  then show ?thesis by (simp add: detectLanguage_def keyword_hits_empty)
next
  case False
  then show ?thesis
    by (simp add: detectLanguage_def call_toLowerCase_def keyword_hits_count Let_def)
qed

text \<open>
  The program's \<open>toLowerCase\<close> computes the lower case of a text: its table of letters
  agrees with the shift of the character code by 32 on the codes 65 to 90, and it
  leaves every other character alone.
\<close>

lemma letters_upt: "map char_of [65::nat..<91] = ''ABCDEFGHIJKLMNOPQRSTUVWXYZ''"
  by code_simp

lemma upper_letters_if:
  assumes "65 \<le> (of_char c :: nat) \<and> (of_char c :: nat) \<le> 90"
  shows "c \<in> set ''ABCDEFGHIJKLMNOPQRSTUVWXYZ''"
proof -
  from assms have "(of_char c :: nat) \<in> {65..<91}" by simp
  then have "char_of (of_char c :: nat) \<in> char_of ` {65::nat..<91}" by (rule imageI)
  then have "c \<in> char_of ` {65::nat..<91}" by simp
  then have "c \<in> set (map char_of [65::nat..<91])" by (simp only: set_map set_upt)
  then show ?thesis by (simp only: letters_upt)
qed

lemma lower_char_letters:
  "list_all (\<lambda>c. lower_char c = ascii_lower c) ''ABCDEFGHIJKLMNOPQRSTUVWXYZ''"
  by code_simp

lemma lower_char_other:
  assumes "c \<notin> set ''ABCDEFGHIJKLMNOPQRSTUVWXYZ''"
  shows "lower_char c = c"
proof -
  have "length ''ABCDEFGHIJKLMNOPQRSTUVWXYZ'' = length ''abcdefghijklmnopqrstuvwxyz''"
    by code_simp
  then have "map fst (zip ''ABCDEFGHIJKLMNOPQRSTUVWXYZ'' ''abcdefghijklmnopqrstuvwxyz'')
      = ''ABCDEFGHIJKLMNOPQRSTUVWXYZ''"
    by (rule map_fst_zip)
  then have "fst ` set (zip ''ABCDEFGHIJKLMNOPQRSTUVWXYZ'' ''abcdefghijklmnopqrstuvwxyz'')
      = set ''ABCDEFGHIJKLMNOPQRSTUVWXYZ''"
    by (simp only: set_map [symmetric])
  with assms
  have "map_of (zip ''ABCDEFGHIJKLMNOPQRSTUVWXYZ'' ''abcdefghijklmnopqrstuvwxyz'') c = None"
    by (simp only: map_of_eq_None_iff not_False_eq_True)
  then show ?thesis by (simp only: lower_char_def option.case)
qed

lemma lower_char_ascii: "lower_char c = ascii_lower c"
proof (cases "c \<in> set ''ABCDEFGHIJKLMNOPQRSTUVWXYZ''")
  case True
  with lower_char_letters show ?thesis by (simp only: list_all_iff)
next
  case False
  then have "\<not> (65 \<le> (of_char c :: nat) \<and> (of_char c :: nat) \<le> 90)"
    using upper_letters_if by blast
  then have "ascii_lower c = c" by (simp only: ascii_lower_def if_False)
  with lower_char_other [OF False] show ?thesis by simp
qed

lemma toLowerCase_lower_cased: "toLowerCase t = lower_cased t"
proof (induction t rule: toLowerCase.induct)
  case (1 c d e cs)
  then show ?case
    by (simp add: lower_cased.simps [of "c # d # e # cs"] kelvin_sign_def capital_i_dotted_def
        small_i_dotted_def lower_char_ascii)
next
  case (2 c d)
  then show ?case
    by (simp add: lower_cased.simps [of "[c, d]"] lower_cased.simps [of "[d]"]
        lower_cased.simps [of "[]"] kelvin_sign_def capital_i_dotted_def
        small_i_dotted_def lower_char_ascii)
next
  case (3 c)
  then show ?case
    by (simp add: lower_cased.simps [of "[c]"] lower_cased.simps [of "[]"] lower_char_ascii)
next
  case 4
  then show ?case by (simp add: lower_cased.simps [of "[]"])
qed

lemma term_hits_keyword_hits: "term_hits t = keyword_hits t"
  by (simp add: term_hits_def keyword_hits_def toLowerCase_lower_cased)

text \<open>
  Claim C1. For every text, \<open>detectLanguage\<close> returns \<open>english\<close> when no term of the two
  lists occurs in the lower case of the text, \<open>mixed\<close> when the two counts add up to 1
  or 2, and \<open>swahili\<close> when they add up to 3 or more. The lower case is the one of the
  specification, so a term is found in whatever case the text spells it.
\<close>

theorem detectLanguage_by_hits:
  "detectLanguage (JStr t) =
     Inr (if term_hits t = 0 then ''english''
          else if term_hits t < 3 then ''mixed'' else ''swahili'')"
  by (simp only: term_hits_keyword_hits detectLanguage_string)

theorem detectLanguage_by_hits_witness:
  "detectLanguage (JStr ''Hello, what should I watch tonight?'') = Inr ''english''
   \<and> detectLanguage (JStr ''Habari yako'') = Inr ''mixed''
   \<and> detectLanguage (JStr ''that was NOMA'') = Inr ''mixed''
   \<and> detectLanguage (JStr ''Asante SANA'') = Inr ''mixed''
   \<and> detectLanguage (JStr ''BRO Noma SAFI'') = Inr ''swahili''
   \<and> detectLanguage (JStr ''bro that movie was noma and safi'') = Inr ''swahili''
   \<and> detectLanguage (JStr
        [CHR 0xE2, CHR 0x84, CHR 0xAA, CHR ''w'', CHR ''a'', CHR ''n'', CHR ''i'']) = Inr ''mixed''"
proof -
  have a: "term_hits ''Hello, what should I watch tonight?'' = 0" by code_simp
  have b: "term_hits ''Habari yako'' = 1" by code_simp
  have c: "term_hits ''that was NOMA'' = 1" by code_simp
  have d: "term_hits ''Asante SANA'' = 1" by code_simp
  have e: "term_hits ''BRO Noma SAFI'' = 3" by code_simp
  have f: "term_hits ''bro that movie was noma and safi'' = 3" by code_simp
  have g: "term_hits [CHR 0xE2, CHR 0x84, CHR 0xAA, CHR ''w'', CHR ''a'', CHR ''n'', CHR ''i''] = 1" by code_simp
  show ?thesis
    using detectLanguage_by_hits [of "''Hello, what should I watch tonight?''"]
      detectLanguage_by_hits [of "''Habari yako''"]
      detectLanguage_by_hits [of "''that was NOMA''"]
      detectLanguage_by_hits [of "''Asante SANA''"]
      detectLanguage_by_hits [of "''BRO Noma SAFI''"]
      detectLanguage_by_hits [of "''bro that movie was noma and safi''"]
      detectLanguage_by_hits [of "[CHR 0xE2, CHR 0x84, CHR 0xAA, CHR ''w'', CHR ''a'', CHR ''n'', CHR ''i'']"]
    by (simp add: a b c d e f g)
qed

text \<open>
  Claim C9. On the empty string, on \<open>null\<close>, on \<open>undefined\<close> and on every value that is
  not a string, \<open>detectLanguage\<close> returns \<open>english\<close>; on no value at all does it throw.
\<close>

theorem detectLanguage_guard:
  "detectLanguage (JStr []) = Inr ''english''
   \<and> detectLanguage JNull = Inr ''english''
   \<and> detectLanguage JUndefined = Inr ''english''
   \<and> (\<forall>v. typeof v \<noteq> ''string'' \<longrightarrow> detectLanguage v = Inr ''english'')
   \<and> (\<forall>v. \<exists>l. detectLanguage v = Inr l)"
proof -
  have "\<exists>l. detectLanguage v = Inr l" for v
  proof (cases v)
    case (JStr t)
    then show ?thesis by (simp add: detectLanguage_string)
  qed (simp_all add: detectLanguage_def)
  then show ?thesis by (simp add: detectLanguage_def)
qed

theorem detectLanguage_guard_witness:
  "typeof (JNum 42) \<noteq> ''string'' \<and> detectLanguage (JNum 42) = Inr ''english''
   \<and> typeof (JArr [JStr ''poa'']) \<noteq> ''string''
   \<and> detectLanguage (JArr [JStr ''poa'']) = Inr ''english''"
proof -
  note r = detectLanguage_guard [THEN conjunct2, THEN conjunct2, THEN conjunct2, THEN conjunct1]
  have a: "typeof (JNum 42) \<noteq> ''string''" by simp
  have b: "typeof (JArr [JStr ''poa'']) \<noteq> ''string''" by simp
  from a b r [THEN spec, THEN mp, OF a] r [THEN spec, THEN mp, OF b]
  show ?thesis by (intro conjI)
qed

text \<open>
  The lower case of a text keeps an occurrence of \<open>poa\<close>: its letters are already lower
  case, and none of its bytes continues one of the two longer encodings.
\<close>

lemma toLowerCase_head:
  "c \<noteq> CHR 0xE2 \<Longrightarrow> c \<noteq> CHR 0xC4 \<Longrightarrow> toLowerCase (c # cs) = lower_char c # toLowerCase cs"
proof (cases cs)
  case Nil
  then show ?thesis by simp
next
  case (Cons d ds)
  assume "c \<noteq> CHR 0xE2" "c \<noteq> CHR 0xC4"
  then show ?thesis using Cons
    by (cases ds) (simp_all add: kelvin_sign_def capital_i_dotted_def)
qed

lemma toLowerCase_second:
  "c \<noteq> CHR 0x84 \<Longrightarrow> c \<noteq> CHR 0xB0 \<Longrightarrow>
   toLowerCase (y # c # r) = lower_char y # toLowerCase (c # r)"
  by (cases r) (simp_all add: kelvin_sign_def capital_i_dotted_def)

lemma toLowerCase_boundary:
  "c \<noteq> CHR 0x84 \<Longrightarrow> c \<noteq> CHR 0xAA \<Longrightarrow> c \<noteq> CHR 0xB0 \<Longrightarrow>
   toLowerCase (ps @ c # r) = toLowerCase ps @ toLowerCase (c # r)"
proof (induction ps rule: toLowerCase.induct)
  case (1 x y z zs)
  then show ?case by simp
next
  case (2 x y)
  then show ?case
    by (simp add: kelvin_sign_def toLowerCase_second)
next
  case (3 x)
  then show ?case by (simp add: toLowerCase_second)
next
  case 4
  then show ?case by simp
qed

lemma toLowerCase_poa:
  "toLowerCase (ps @ ''poa'' @ ss) = toLowerCase ps @ ''poa'' @ toLowerCase ss"
proof -
  have "toLowerCase (''poa'' @ ss) = ''poa'' @ toLowerCase ss"
    by (simp add: toLowerCase_head lower_char_def del: toLowerCase.simps(1))
  moreover have "toLowerCase (ps @ ''poa'' @ ss) = toLowerCase ps @ toLowerCase (''poa'' @ ss)"
    using toLowerCase_boundary [of "CHR ''p''" ps "''oa'' @ ss"] by simp
  ultimately show ?thesis by simp
qed

lemma sublist_poa_lower: "sublist ''poa'' t \<Longrightarrow> sublist ''poa'' (toLowerCase t)"
  unfolding sublist_def using toLowerCase_poa by blast

lemma filter_split_one:
  "distinct ws \<Longrightarrow> a \<in> set ws \<Longrightarrow> P a \<Longrightarrow>
   length (filter P ws) = 1 + length (filter P (remove1 a ws))"
  by (induction ws) auto

lemma count_matches_split:
  "distinct ws \<Longrightarrow> a \<in> set ws \<Longrightarrow> str_includes lower a \<Longrightarrow>
   count_matches lower ws = 1 + count_matches lower (remove1 a ws)"
  unfolding count_matches_def by (rule filter_split_one)

lemma count_matches_none:
  "(\<And>w. w \<in> set ws \<Longrightarrow> \<not> str_includes lower w) \<Longrightarrow> count_matches lower ws = 0"
  by (simp add: count_matches_def)

lemma count_matches_some:
  "w \<in> set ws \<Longrightarrow> str_includes lower w \<Longrightarrow> 1 \<le> count_matches lower ws"
proof -
  assume "w \<in> set ws" "str_includes lower w"
  then have "w \<in> set (filter (\<lambda>w. str_includes lower w) ws)" by simp
  then have "filter (\<lambda>w. str_includes lower w) ws \<noteq> []" by force
  then show ?thesis by (simp add: count_matches_def Suc_le_eq)
qed

lemma distinct_words: "distinct swahiliWords" "distinct shengWords"
  by (simp_all add: swahiliWords_def shengWords_def)

lemma poa_member: "''poa'' \<in> set swahiliWords" "''poa'' \<in> set shengWords"
  by (simp_all add: swahiliWords_def shengWords_def)

text \<open>
  Claim C10. \<open>poa\<close> is a term of both lists. A text that contains \<open>poa\<close> therefore has
  two hits from it: the two counts add up to 2 plus the hits of the other terms. When
  no other term occurs the text is \<open>mixed\<close>; when any one other term of either list
  occurs as well, the text is \<open>swahili\<close>.
\<close>

theorem poa_counts_twice:
  assumes "sublist ''poa'' t"
  shows "''poa'' \<in> set swahiliWords \<and> ''poa'' \<in> set shengWords
    \<and> count_matches (toLowerCase t) swahiliWords + count_matches (toLowerCase t) shengWords
        = 2 + (count_matches (toLowerCase t) (remove1 ''poa'' swahiliWords)
               + count_matches (toLowerCase t) (remove1 ''poa'' shengWords))
    \<and> ((\<forall>w \<in> set (swahiliWords @ shengWords).
           w \<noteq> ''poa'' \<longrightarrow> \<not> str_includes (toLowerCase t) w)
         \<longrightarrow> detectLanguage (JStr t) = Inr ''mixed'')
    \<and> (\<forall>w \<in> set (swahiliWords @ shengWords).
           w \<noteq> ''poa'' \<and> str_includes (toLowerCase t) w
           \<longrightarrow> detectLanguage (JStr t) = Inr ''swahili'')"
proof -
  let ?l = "toLowerCase t"
  let ?a = "count_matches ?l (remove1 ''poa'' swahiliWords)"
  let ?b = "count_matches ?l (remove1 ''poa'' shengWords)"
  have poa: "str_includes ?l ''poa''"
    using assms by (simp add: str_includes_sublist sublist_poa_lower)
  have sw: "count_matches ?l swahiliWords = 1 + ?a"
    by (rule count_matches_split [OF distinct_words(1) poa_member(1) poa])
  have sh: "count_matches ?l shengWords = 1 + ?b"
    by (rule count_matches_split [OF distinct_words(2) poa_member(2) poa])
  have hits: "keyword_hits t = 2 + (?a + ?b)"
    by (simp add: keyword_hits_count sw sh)
  have only: "detectLanguage (JStr t) = Inr ''mixed''"
    if "\<forall>w \<in> set (swahiliWords @ shengWords). w \<noteq> ''poa'' \<longrightarrow> \<not> str_includes ?l w"
  proof -
    have "?a = 0"
      using that distinct_words(1) by (intro count_matches_none) auto
    moreover have "?b = 0"
      using that distinct_words(2) by (intro count_matches_none) auto
    ultimately show ?thesis by (simp add: detectLanguage_string hits)
  qed
  have more: "detectLanguage (JStr t) = Inr ''swahili''"
    if "w \<in> set (swahiliWords @ shengWords)" "w \<noteq> ''poa''" "str_includes ?l w" for w
  proof -
    have "w \<in> set (remove1 ''poa'' swahiliWords) \<or> w \<in> set (remove1 ''poa'' shengWords)"
      using that(1,2) distinct_words by auto
    then have "1 \<le> ?a \<or> 1 \<le> ?b"
      using that(3) count_matches_some by blast
    then have "3 \<le> keyword_hits t" using hits by linarith
    then show ?thesis by (simp add: detectLanguage_string)
  qed
  have m: "\<forall>w \<in> set (swahiliWords @ shengWords).
           w \<noteq> ''poa'' \<and> str_includes ?l w
           \<longrightarrow> detectLanguage (JStr t) = Inr ''swahili''"
    using more by blast
  have n: "count_matches ?l swahiliWords + count_matches ?l shengWords = 2 + (?a + ?b)"
    using sw sh by simp
  from poa_member n only m show ?thesis by (intro conjI impI)
qed

theorem poa_counts_twice_witness:
  "sublist ''poa'' ''poa''
   \<and> detectLanguage (JStr ''poa'') = Inr ''mixed''
   \<and> sublist ''poa'' ''poa bro''
   \<and> str_includes (toLowerCase ''poa bro'') ''bro''
   \<and> detectLanguage (JStr ''poa bro'') = Inr ''swahili''"
proof -
  have a: "sublist ''poa'' ''poa''" by simp
  have l: "toLowerCase ''poa'' = ''poa''" by code_simp
  have b: "\<forall>w \<in> set (swahiliWords @ shengWords).
            w \<noteq> ''poa'' \<longrightarrow> \<not> str_includes (toLowerCase ''poa'') w"
    unfolding l by (simp add: swahiliWords_def shengWords_def)
  have c: "sublist ''poa'' ''poa bro''" by code_simp
  have d: "''bro'' \<in> set (swahiliWords @ shengWords)"
    by (simp add: shengWords_def)
  have e: "''bro'' \<noteq> ''poa'' \<and> str_includes (toLowerCase ''poa bro'') ''bro''" by code_simp
  note only = poa_counts_twice [OF a, THEN conjunct2, THEN conjunct2, THEN conjunct2, THEN conjunct1]
  note more = poa_counts_twice [OF c, THEN conjunct2, THEN conjunct2, THEN conjunct2, THEN conjunct2]
  have m: "detectLanguage (JStr ''poa'') = Inr ''mixed''"
    by (rule only [THEN mp, OF b])
  have s: "detectLanguage (JStr ''poa bro'') = Inr ''swahili''"
    by (rule more [THEN bspec, OF d, THEN mp, OF e])
  from a m c e s show ?thesis by (intro conjI) (elim conjE, assumption)+
qed

section \<open>The handler without the heap\<close>

text \<open>
  The references of a request are the indices of its heap, so the handler can be
  described on lists of turns alone.
\<close>

lemma new_objects_eq: "new_objects h ts = ([length h..<length h + length ts], h @ ts)"
proof (induction ts arbitrary: h)
  case Nil
  then show ?case by simp
next
  case (Cons t ts)
  have "[length h..<length h + length (t # ts)]
          = length h # [length (h @ [t])..<length (h @ [t]) + length ts]"
    by (simp add: upt_conv_Cons del: upt_Suc)
  then show ?case by (simp add: new_object_def Cons.IH del: upt_Suc)
qed

lemma usable_cases:
  "usable f \<longleftrightarrow> f = None \<or> (\<exists>m. f = Some (Record m))"
  by (auto simp: usable_def split: option.splits stored.splits)

lemma loadMemory_eq:
  "usable (dir uid) \<Longrightarrow>
   loadMemory dir uid [] =
     (Record \<lparr>userId = userId (read_record dir uid),
        lastProject = lastProject (read_record dir uid),
        lastTask = lastTask (read_record dir uid),
        conversation = [0..<length (conversation (read_record dir uid))]\<rparr>,
      conversation (read_record dir uid))"
  by (auto simp: usable_cases loadMemory_def new_objects_eq Let_def)

lemma loadMemory_unusable:
  "dir uid = Some (Unusable msg) \<Longrightarrow> loadMemory dir uid h = (Unusable msg, h)"
  by (simp add: loadMemory_def)

lemma map_deref_all: "map (deref h) [0..<length h] = h"
  unfolding deref_def by (rule map_nth)

lemma length_add_instruction [simp]: "length (add_instruction h ms i) = length h"
  by (simp add: add_instruction_def split: list.splits)

lemma length_limit_history:
  "length (limit_history xs) = (if 20 < length xs then 20 else length xs)"
  by (simp add: limit_history_def slice_last_def Let_def)

lemma map_limit_history: "map f (limit_history xs) = limit_history (map f xs)"
proof (cases "20 < length xs")
  case True
  then have "map f xs ! 0 = f (xs ! 0)" by (intro nth_map) auto
  then show ?thesis
    by (simp add: limit_history_def slice_last_def drop_map Let_def)
next
  case False
  then show ?thesis by (simp add: limit_history_def)
qed

lemma upt_snoc_Cons: "[0..<n] @ [n] = 0 # [Suc 0..<Suc n]"
proof -
  have "[0..<Suc n] = 0 # [Suc 0..<Suc n]" by (rule upt_conv_Cons) simp
  then show ?thesis by simp
qed

lemma add_instruction_first:
  "add_instruction (t # ts) ([0..<n] @ [n]) i =
     (if role t = ''system''
      then t\<lparr>content := content t @ [CHR 0x0A, CHR 0x0A] @ i\<rparr> # ts
      else t # ts)"
  unfolding upt_snoc_Cons by (simp add: add_instruction_def deref_def)

lemma finish_eq:
  "conversation m = [0..<length h] \<Longrightarrow>
   finish uid m h (JStr s) =
     (Inr \<lparr>res_status = 200,
           res_json = JObj
             [(''reply'', JStr (cleanText s)),
              (''memory'', JObj
                 [(''lastProject'', lastProject m),
                  (''conversationLength'',
                     JNum (real (length (limit_history (h @ [\<lparr>role = ''assistant'', content = cleanText s\<rparr>]))))),
                  (''userId'', uid)])]\<rparr>,
      [WriteFile uid
         \<lparr>userId = userId m, lastProject = lastProject m, lastTask = lastTask m,
          conversation = limit_history (h @ [\<lparr>role = ''assistant'', content = cleanText s\<rparr>])\<rparr>])"
proof -
  assume c: "conversation m = [0..<length h]"
  let ?a = "\<lparr>role = ''assistant'', content = cleanText s\<rparr>"
  have "map (deref (h @ [?a])) (limit_history ([0..<length h] @ [length h])) = limit_history (h @ [?a])"
    using map_deref_all [of "h @ [?a]"] by (simp add: map_limit_history)
  then show ?thesis
    by (simp add: finish_def new_object_def Let_def stringify_def c length_limit_history)
qed


lemma detectLanguage_classify: "detectLanguage (JStr p) = Inr (classify p)"
  by (simp add: detectLanguage_string classify_def)

lemma map_deref_tuned:
  "map (deref (tuned ts p)) [0..<length ts] @ [deref (tuned ts p) (length ts)] = tuned ts p"
  using map_deref_all [of "tuned ts p"] by (simp add: tuned_def)

lemma finish_not_string:
  "typeof reply \<noteq> ''string'' \<Longrightarrow>
   finish uid m h reply =
     (Inl (type_error (if toString_throws (property reply ''length'')
                       then ''Cannot convert object to primitive value''
                       else ''assistantReply.replace is not a function'')), [])"
  by (cases reply) (simp_all add: finish_def property_def)

lemma converse_unusable:
  "memory_dir env uid = Some (Unusable msg) \<Longrightarrow>
   converse env p project uid = (Inl (type_error msg), [ReadFile uid])"
  by (simp add: converse_def loadMemory_unusable)

lemma converse_eq:
  assumes u: "usable (memory_dir env uid)"
  shows "converse env p project uid =
     (let st = read_record (memory_dir env) uid;
          h = tuned (conversation st) p
      in if DEEPSEEK_API_KEY env = None \<or> DEEPSEEK_API_KEY env = Some []
         then (Inr config_error, [ReadFile uid])
         else (case axios_post env h of
                 Inl e \<Rightarrow> (Inl e, [ReadFile uid, PostUpstream h])
               | Inr data \<Rightarrow>
                   (case assistantReply data of
                      JStr s \<Rightarrow>
                        (Inr \<lparr>res_status = 200,
                              res_json = JObj
                                [(''reply'', JStr (cleanText s)),
                                 (''memory'', JObj
                                    [(''lastProject'',
                                        if truthy project then project else lastProject st),
                                     (''conversationLength'',
                                        JNum (real (length (limit_history
                                          (h @ [\<lparr>role = ''assistant'', content = cleanText s\<rparr>]))))),
                                     (''userId'', uid)])]\<rparr>,
                         [ReadFile uid, PostUpstream h,
                          WriteFile uid
                            \<lparr>userId = userId st,
                             lastProject = (if truthy project then project else lastProject st),
                             lastTask = JStr p,
                             conversation = limit_history
                               (h @ [\<lparr>role = ''assistant'', content = cleanText s\<rparr>])\<rparr>])
                    | reply \<Rightarrow>
                        (Inl (type_error
                           (if toString_throws (property reply ''length'')
                            then ''Cannot convert object to primitive value''
                            else ''assistantReply.replace is not a function'')),
                         [ReadFile uid, PostUpstream h]))))"
proof -
  let ?st = "read_record (memory_dir env) uid"
  let ?h = "tuned (conversation ?st) p"
  let ?m = "\<lparr>userId = userId ?st,
            lastProject = (if truthy project then project else lastProject ?st),
            lastTask = JStr p,
            conversation = [0..<length (conversation ?st)] @ [length (conversation ?st)]\<rparr>"
  have len: "length ?h = Suc (length (conversation ?st))" by (simp add: tuned_def)
  have conv: "conversation ?m = [0..<length ?h]" by (simp add: len)
  have c: "converse env p project uid =
     (if DEEPSEEK_API_KEY env = None \<or> DEEPSEEK_API_KEY env = Some []
      then (Inr config_error, [ReadFile uid])
      else (case axios_post env ?h of
              Inl e \<Rightarrow> (Inl e, [ReadFile uid, PostUpstream ?h])
            | Inr data \<Rightarrow>
                (let (result, effects) = finish uid ?m ?h (assistantReply data)
                 in (result, [ReadFile uid, PostUpstream ?h] @ effects))))"
    by (simp add: converse_def loadMemory_eq [of "memory_dir env" uid, OF u] new_object_def detectLanguage_classify
          Let_def map_deref_tuned tuned_def [symmetric] cong: sum.case_cong)
  show ?thesis
  proof (cases "DEEPSEEK_API_KEY env = None \<or> DEEPSEEK_API_KEY env = Some []")
    case True
    then show ?thesis by (simp add: c Let_def)
  next
    case False
    show ?thesis
    proof (cases "axios_post env ?h")
      case (Inl e)
      then show ?thesis using False by (simp add: c Let_def)
    next
      case (Inr data)
      show ?thesis
      proof (cases "assistantReply data")
        case (JStr s)
        then show ?thesis using False Inr
          by (simp add: c Let_def finish_eq [OF conv])
      qed (use False Inr in \<open>simp_all add: c Let_def finish_not_string\<close>)
    qed
  qed
qed


lemma trim_Nil: "trim [] = []"
  by (simp add: trim_def strip_leading.simps white_space_def)

lemma try_block_prompt:
  assumes "read_body env req = Continue body" "\<not> nullish body"
    and "property body ''prompt'' = JStr p" "trim p \<noteq> []"
  shows "try_block env req =
     (if toString_throws (userId_of body)
      then (Inl (type_error ''Cannot convert object to primitive value''), [])
      else converse env p (property body ''project'') (userId_of body))"
proof -
  from assms(4) have "p \<noteq> []" using trim_Nil by auto
  with assms show ?thesis
    by (simp add: try_block_def destructure_def log_userId_def check_prompt_def)
qed

lemma try_block_valid:
  assumes "read_body env req = Continue body" "\<not> nullish body"
    and "property body ''prompt'' = JStr p" "trim p \<noteq> []"
    and "\<not> toString_throws (userId_of body)"
  shows "try_block env req = converse env p (property body ''project'') (userId_of body)"
  using assms by (simp add: try_block_prompt)

lemma handler_valid:
  assumes "valid_post env req body p"
  shows "handler env req =
    (case converse env p (property body ''project'') (userId_of body) of
       (Inr r, effects) \<Rightarrow> (r, effects)
     | (Inl e, effects) \<Rightarrow> (catch_block env e, effects))"
  using assms by (simp add: valid_post_def prompt_post_def handler_def try_block_valid)

lemma limit_history_hd: "conv \<noteq> [] \<Longrightarrow> hd (limit_history conv) = hd conv"
  by (simp add: limit_history_def Let_def hd_conv_nth)

lemma limit_history_Nil: "limit_history conv = [] \<longleftrightarrow> conv = []"
  by (auto simp: limit_history_def Let_def)

lemma handler_writes:
  assumes "WriteFile u m \<in> set (snd (handler env req))"
  shows "\<exists>p s. conversation m =
    limit_history (tuned (conversation (read_record (memory_dir env) u)) p
                   @ [\<lparr>role = ''assistant'', content = s\<rparr>])"
proof -
  from assms have "WriteFile u m \<in> set (snd (try_block env req))"
    by (auto simp: handler_def split: if_splits prod.splits sum.splits)
  then obtain p project uid where w: "WriteFile u m \<in> set (snd (converse env p project uid))"
    by (auto simp: try_block_def split: step.splits prod.splits)
  show ?thesis
  proof (cases "usable (memory_dir env uid)")
    case True
    with w show ?thesis
      by (auto simp: converse_eq Let_def split: if_splits sum.splits json.splits)
  next
    case False
    then obtain msg where "memory_dir env uid = Some (Unusable msg)"
      by (auto simp: usable_def split: option.splits stored.splits)
    with w show ?thesis by (simp add: converse_unusable)
  qed
qed

lemma handler_success:
  assumes v: "valid_post env req body p"
    and key: "DEEPSEEK_API_KEY env = Some k" "k \<noteq> []"
    and sent: "sent = tuned (conversation (read_record (memory_dir env) (userId_of body))) p"
    and reply: "axios_post env sent = Inr data" "assistantReply data = JStr s"
  shows "snd (handler env req) =
     [ReadFile (userId_of body), PostUpstream sent,
      WriteFile (userId_of body)
        \<lparr>userId = userId (read_record (memory_dir env) (userId_of body)),
         lastProject = (if truthy (property body ''project'') then property body ''project''
                        else lastProject (read_record (memory_dir env) (userId_of body))),
         lastTask = JStr p,
         conversation = limit_history (sent @ [\<lparr>role = ''assistant'', content = cleanText s\<rparr>])\<rparr>]"
    and "res_status (fst (handler env req)) = 200"
    and "property (res_json (fst (handler env req))) ''reply'' = JStr (cleanText s)"
proof -
  from v have u: "usable (memory_dir env (userId_of body))" by (simp add: valid_post_def)
  show "snd (handler env req) =
     [ReadFile (userId_of body), PostUpstream sent,
      WriteFile (userId_of body)
        \<lparr>userId = userId (read_record (memory_dir env) (userId_of body)),
         lastProject = (if truthy (property body ''project'') then property body ''project''
                        else lastProject (read_record (memory_dir env) (userId_of body))),
         lastTask = JStr p,
         conversation = limit_history (sent @ [\<lparr>role = ''assistant'', content = cleanText s\<rparr>])\<rparr>]"
    using key reply unfolding handler_valid [OF v] sent
    by (simp add: converse_eq [OF u] Let_def)
  show "res_status (fst (handler env req)) = 200"
    using key reply unfolding handler_valid [OF v] sent
    by (simp add: converse_eq [OF u] Let_def)
  show "property (res_json (fst (handler env req))) ''reply'' = JStr (cleanText s)"
    using key reply unfolding handler_valid [OF v] sent
    by (simp add: converse_eq [OF u] Let_def property_def)
qed

text \<open>A first request of a user, answered by the upstream service with \<open>Hi\<close>.\<close>

lemma trim_hello: "trim ''hello'' = ''hello''" by code_simp

lemma classify_hello: "classify ''hello'' = ''english''" by code_simp

lemma valid_post_hello:
  "valid_post (test_env key dir up) (post (JObj [(''prompt'', JStr ''hello'')]))
     (JObj [(''prompt'', JStr ''hello'')]) ''hello''"
  by (cases "dir (JStr ''default'')")
    (simp_all add: valid_post_def prompt_post_def test_env_def post_def read_body_def
       property_def trim_hello userId_of_def usable_def)

lemma userId_hello: "userId_of (JObj [(''prompt'', JStr ''hello'')]) = JStr ''default''"
  by (simp add: userId_of_def property_def)

lemma reply_says: "assistantReply (JObj [(''choices'', JArr [JObj [(''message'', JObj [(''content'', JStr (c # cs))])]])]) = JStr (c # cs)"
  by (simp add: assistantReply_def optional_def property_def first_element_def)

lemma tuned_fresh:
  "tuned [\<lparr>role = ''system'', content = persona_preamble\<rparr>] ''hello'' =
     [\<lparr>role = ''system'', content = persona_preamble @ [CHR 0x0A, CHR 0x0A]
         @ ''Respond in English, friendly Kenyan developer tone.''\<rparr>,
      \<lparr>role = ''user'', content = ''hello''\<rparr>]"
  by (simp add: tuned_def classify_hello languageInstruction_def add_instruction_def deref_def)

lemma cleanText_Hi: "cleanText ''Hi'' = ''Hi''" by code_simp

lemma example_run:
  "snd (handler (test_env (Some ''sk'') (\<lambda>u. None) (upstream_says ''Hi''))
          (post (JObj [(''prompt'', JStr ''hello'')]))) =
     [ReadFile (JStr ''default''),
      PostUpstream
        [\<lparr>role = ''system'', content = persona_preamble @ [CHR 0x0A, CHR 0x0A]
            @ ''Respond in English, friendly Kenyan developer tone.''\<rparr>,
         \<lparr>role = ''user'', content = ''hello''\<rparr>],
      WriteFile (JStr ''default'')
        \<lparr>userId = JStr ''default'', lastProject = JNull, lastTask = JStr ''hello'',
         conversation =
           [\<lparr>role = ''system'', content = persona_preamble @ [CHR 0x0A, CHR 0x0A]
               @ ''Respond in English, friendly Kenyan developer tone.''\<rparr>,
            \<lparr>role = ''user'', content = ''hello''\<rparr>,
            \<lparr>role = ''assistant'', content = ''Hi''\<rparr>]\<rparr>]"
proof -
  let ?E = "test_env (Some ''sk'') (\<lambda>u. None) (upstream_says ''Hi'')"
  let ?B = "JObj [(''prompt'', JStr ''hello'')]"
  have md: "memory_dir ?E = (\<lambda>u. None)" by (simp add: test_env_def)
  let ?data = "JObj [(''choices'', JArr [JObj [(''message'', JObj [(''content'', JStr ''Hi'')])]])]"
  have k: "DEEPSEEK_API_KEY ?E = Some ''sk''" by (simp add: test_env_def)
  have ne: "''sk'' \<noteq> []" by simp
  have up: "axios_post ?E (tuned (conversation (read_record (memory_dir ?E) (userId_of ?B))) ''hello'')
      = Inr ?data"
    by (simp add: test_env_def upstream_says_def)
  have rep: "assistantReply ?data = JStr ''Hi''" by (rule reply_says)
  note r = handler_success(1) [OF valid_post_hello k ne refl up rep]
  show ?thesis
    unfolding r
    by (simp add: md userId_hello tuned_fresh cleanText_Hi limit_history_def
          read_record_def default_memory_def property_def)
qed

text \<open>The system turn stays first in every record the handler writes.\<close>

lemma tuned_Cons:
  "tuned (t # ts) p =
     (if role t = ''system''
      then t\<lparr>content := content t @ [CHR 0x0A, CHR 0x0A] @ languageInstruction (classify p)\<rparr>
           # ts @ [\<lparr>role = ''user'', content = p\<rparr>]
      else t # ts @ [\<lparr>role = ''user'', content = p\<rparr>])"
  using add_instruction_first [of t "ts @ [\<lparr>role = ''user'', content = p\<rparr>]" "length (t # ts)"
      "languageInstruction (classify p)"]
  by (simp add: tuned_def)

lemma limit_history_Cons: "\<exists>ys. limit_history (x # xs) = x # ys"
  by (simp add: limit_history_def Let_def)

lemma default_memory_system:
  "\<exists>t ts. conversation (default_memory uid) = t # ts \<and> role t = ''system''
     \<and> prefix persona_preamble (content t)"
  by (simp add: default_memory_def)

lemma produced_system_first:
  "produced m \<Longrightarrow>
   \<exists>t ts. conversation m = t # ts \<and> role t = ''system'' \<and> prefix persona_preamble (content t)"
proof (induction rule: produced.induct)
  case (fresh uid)
  show ?case by (rule default_memory_system)
next
  case (written env uid m' req)
  let ?st = "read_record (memory_dir env) uid"
  have "\<exists>t ts. conversation ?st = t # ts \<and> role t = ''system''
          \<and> prefix persona_preamble (content t)"
  proof (cases "\<exists>m. memory_dir env uid = Some (Record m)")
    case True
    with written.IH show ?thesis by (auto simp: read_record_def)
  next
    case False
    then have "?st = default_memory uid"
      by (auto simp: read_record_def split: option.splits stored.splits)
    then show ?thesis by (simp only: default_memory_system)
  qed
  then obtain t ts where st: "conversation ?st = t # ts" "role t = ''system''"
    "prefix persona_preamble (content t)" by blast
  from handler_writes [OF written.hyps] obtain p s where
    m': "conversation m' = limit_history (tuned (conversation ?st) p
           @ [\<lparr>role = ''assistant'', content = s\<rparr>])" by blast
  let ?t' = "t\<lparr>content := content t @ [CHR 0x0A, CHR 0x0A] @ languageInstruction (classify p)\<rparr>"
  from limit_history_Cons [of ?t' "ts @ [\<lparr>role = ''user'', content = p\<rparr>]
       @ [\<lparr>role = ''assistant'', content = s\<rparr>]"] obtain ys where
    "limit_history (?t' # (ts @ [\<lparr>role = ''user'', content = p\<rparr>]
       @ [\<lparr>role = ''assistant'', content = s\<rparr>])) = ?t' # ys" by blast
  then have "conversation m' = ?t' # ys"
    by (simp add: m' st tuned_Cons)
  moreover have "role ?t' = ''system''" using st(2) by simp
  moreover have "prefix persona_preamble (content ?t')" using st(3) by (simp add: prefix_prefix)
  ultimately show ?case by blast
qed

text \<open>Failures: what the \<^verbatim>\<open>catch\<close> block answers, and when the upstream error reaches it.\<close>

lemma handler_throws:
  assumes "req_method req = ''POST''" "try_block env req = (Inl e, effects)"
  shows "handler env req = (catch_block env e, effects)"
  using assms by (simp add: handler_def)

lemma catch_block_status:
  "res_status (catch_block env e) =
     (if err_status e = Some 401 then 401
      else if err_status e = Some 429 then 429
      else if err_code e = Some ''ECONNABORTED'' then 408
      else 500)"
  by (simp add: catch_block_def)

lemma catch_block_error:
  "property (res_json (catch_block env e)) ''error'' = JStr
     (if err_status e = Some 401 then ''API key is invalid or missing.''
      else if err_status e = Some 429 then ''Rate limit exceeded. Please try again later.''
      else if err_code e = Some ''ECONNABORTED'' then ''Request timeout. Please try again.''
      else if str_includes (err_message e) ''ENOENT'' then ''File system error.''
      else ''Server error. Please try again.'')"
  by (simp add: catch_block_def property_def)

lemma catch_block_details:
  "property (res_json (catch_block env e)) ''details'' =
     (if err_status e = Some 401 then JStr ''Check your DEEPSEEK_API_KEY environment variable''
      else if NODE_ENV env = Some ''development'' then JStr (err_message e)
      else JUndefined)"
  by (simp add: catch_block_def property_def)

lemma upstream_failure_thrown:
  assumes "valid_post env req body p"
    and "DEEPSEEK_API_KEY env = Some k" "k \<noteq> []"
    and "sent = tuned (conversation (read_record (memory_dir env) (userId_of body))) p"
    and "axios_post env sent = Inl e"
  shows "try_block env req = (Inl e, [ReadFile (userId_of body), PostUpstream sent])"
  using assms by (simp add: valid_post_def prompt_post_def try_block_valid converse_eq)

lemma failing_run:
  "valid_post (test_env (Some ''sk'') (\<lambda>u. None) (upstream_fails e))
     (post (JObj [(''prompt'', JStr ''hello'')])) (JObj [(''prompt'', JStr ''hello'')]) ''hello''
   \<and> DEEPSEEK_API_KEY (test_env (Some ''sk'') (\<lambda>u. None) (upstream_fails e)) = Some ''sk''
   \<and> ''sk'' \<noteq> []
   \<and> sent = sent
   \<and> axios_post (test_env (Some ''sk'') (\<lambda>u. None) (upstream_fails e)) sent = Inl e"
  by (simp add: valid_post_hello) (simp add: test_env_def upstream_fails_def)

section \<open>The cleaned reply\<close>

















section \<open>Properties of the handler\<close>

text \<open>
  Claim C2. A POST request that reaches the conversation of its user (a valid prompt, a
  user id that can be converted to a string, a usable file), with a configured
  credential and an upstream reply \<open>s\<close>: let \<open>appended\<close> be the conversation after the
  assistant turn is appended. The handler writes one record. When \<open>appended\<close> has more than 20 turns, the
  written conversation has exactly 20 turns: turn 0 of \<open>appended\<close>, then its last 19 turns
  in their order. When \<open>appended\<close> has 20 turns or fewer, it is written as it is.
\<close>

theorem history_cut_to_20:
  assumes "valid_post env req body p"
    and "DEEPSEEK_API_KEY env = Some k" "k \<noteq> []"
    and "sent = tuned (conversation (read_record (memory_dir env) (userId_of body))) p"
    and "axios_post env sent = Inr data" "assistantReply data = JStr s"
    and "appended = sent @ [\<lparr>role = ''assistant'', content = cleanText s\<rparr>]"
  shows "\<exists>m. snd (handler env req) =
              [ReadFile (userId_of body), PostUpstream sent, WriteFile (userId_of body) m]
     \<and> (20 < length appended \<longrightarrow>
          length (conversation m) = 20
          \<and> conversation m ! 0 = appended ! 0
          \<and> (\<forall>i < 19. conversation m ! Suc i = appended ! (length appended - 19 + i))
          \<and> conversation m = appended ! 0 # drop (length appended - 19) appended)
     \<and> (length appended \<le> 20 \<longrightarrow> conversation m = appended)"
proof -
  have "(20 < length appended \<longrightarrow>
          length (limit_history appended) = 20
          \<and> limit_history appended ! 0 = appended ! 0
          \<and> (\<forall>i < 19. limit_history appended ! Suc i = appended ! (length appended - 19 + i))
          \<and> limit_history appended = appended ! 0 # drop (length appended - 19) appended)
     \<and> (length appended \<le> 20 \<longrightarrow> limit_history appended = appended)"
    by (simp add: limit_history_def slice_last_def Let_def)
  then show ?thesis
    unfolding handler_success(1) [OF assms(1-6)] assms(7) [symmetric] by simp
qed

theorem history_cut_to_20_witness:
  "\<exists>m. snd (handler (test_env (Some ''sk'') (\<lambda>u. Some full_record) (upstream_says ''Hi''))
               (post (JObj [(''prompt'', JStr ''hello'')]))) =
          [ReadFile (JStr ''default''),
           PostUpstream
             (\<lparr>role = ''system'', content = persona_preamble @ [CHR 0x0A, CHR 0x0A]
                 @ ''Respond in English, friendly Kenyan developer tone.''\<rparr>
              # map (\<lambda>c. \<lparr>role = ''user'', content = [c]\<rparr>) ''abcdefghijklmnopqrs''
              @ [\<lparr>role = ''user'', content = ''hello''\<rparr>]),
           WriteFile (JStr ''default'') m]
     \<and> length (conversation m) = 20
     \<and> conversation m =
         \<lparr>role = ''system'', content = persona_preamble @ [CHR 0x0A, CHR 0x0A]
            @ ''Respond in English, friendly Kenyan developer tone.''\<rparr>
         # map (\<lambda>c. \<lparr>role = ''user'', content = [c]\<rparr>) ''cdefghijklmnopqrs''
         @ [\<lparr>role = ''user'', content = ''hello''\<rparr>, \<lparr>role = ''assistant'', content = ''Hi''\<rparr>]"
proof -
  let ?E = "test_env (Some ''sk'') (\<lambda>u. Some full_record) (upstream_says ''Hi'')"
  let ?B = "JObj [(''prompt'', JStr ''hello'')]"
  let ?T = "tuned (conversation (read_record (memory_dir ?E) (userId_of ?B))) ''hello''"
  let ?data = "JObj [(''choices'', JArr [JObj [(''message'', JObj [(''content'', JStr ''Hi'')])]])]"
  have k: "DEEPSEEK_API_KEY ?E = Some ''sk''" by (simp add: test_env_def)
  have ne: "''sk'' \<noteq> []" by simp
  have up: "axios_post ?E ?T = Inr ?data" by (simp add: test_env_def upstream_says_def)
  have rep: "assistantReply ?data = JStr ''Hi''" by (rule reply_says)
  have T: "?T = \<lparr>role = ''system'', content = persona_preamble @ [CHR 0x0A, CHR 0x0A]
                 @ ''Respond in English, friendly Kenyan developer tone.''\<rparr>
              # map (\<lambda>c. \<lparr>role = ''user'', content = [c]\<rparr>) ''abcdefghijklmnopqrs''
              @ [\<lparr>role = ''user'', content = ''hello''\<rparr>]"
    by (simp add: test_env_def userId_hello read_record_def full_record_def tuned_Cons
          classify_hello languageInstruction_def)
  from history_cut_to_20 [OF valid_post_hello k ne refl up rep refl]
  obtain m where
    m: "snd (handler ?E (post ?B)) = [ReadFile (userId_of ?B), PostUpstream ?T, WriteFile (userId_of ?B) m]"
      "20 < length (?T @ [\<lparr>role = ''assistant'', content = cleanText ''Hi''\<rparr>]) \<longrightarrow>
         length (conversation m) = 20 \<and>
         conversation m = (?T @ [\<lparr>role = ''assistant'', content = cleanText ''Hi''\<rparr>]) ! 0
           # drop (length (?T @ [\<lparr>role = ''assistant'', content = cleanText ''Hi''\<rparr>]) - 19)
               (?T @ [\<lparr>role = ''assistant'', content = cleanText ''Hi''\<rparr>])"
    by blast
  have long: "20 < length (?T @ [\<lparr>role = ''assistant'', content = cleanText ''Hi''\<rparr>])"
    unfolding T by simp
  from m(2) long have c: "length (conversation m) = 20"
    "conversation m = (?T @ [\<lparr>role = ''assistant'', content = cleanText ''Hi''\<rparr>]) ! 0
           # drop (length (?T @ [\<lparr>role = ''assistant'', content = cleanText ''Hi''\<rparr>]) - 19)
               (?T @ [\<lparr>role = ''assistant'', content = cleanText ''Hi''\<rparr>])"
    by blast+
  have "snd (handler ?E (post ?B)) =
      [ReadFile (JStr ''default''), PostUpstream ?T, WriteFile (JStr ''default'') m]"
    using m(1) by (simp only: userId_hello)
  moreover have "conversation m =
         \<lparr>role = ''system'', content = persona_preamble @ [CHR 0x0A, CHR 0x0A]
            @ ''Respond in English, friendly Kenyan developer tone.''\<rparr>
         # map (\<lambda>c. \<lparr>role = ''user'', content = [c]\<rparr>) ''cdefghijklmnopqrs''
         @ [\<lparr>role = ''user'', content = ''hello''\<rparr>, \<lparr>role = ''assistant'', content = ''Hi''\<rparr>]"
    unfolding c(2) T cleanText_Hi by simp
  ultimately show ?thesis using c(1) unfolding T by blast
qed

text \<open>
  Claim C3. Every record the system produces, the default record and every record
  written after the append-and-truncate step of a request, starts with a turn of role
  \<open>system\<close> whose content starts with, and so contains, the persona preamble; and
  truncation keeps the first turn of a conversation in first place.
\<close>

theorem system_turn_stays_first:
  "(produced m \<longrightarrow>
      (\<exists>t ts. conversation m = t # ts \<and> role t = ''system''
         \<and> prefix persona_preamble (content t) \<and> sublist persona_preamble (content t)))
   \<and> (conv \<noteq> [] \<longrightarrow> limit_history conv \<noteq> [] \<and> hd (limit_history conv) = hd conv)"
  using produced_system_first [of m] limit_history_hd [of conv] limit_history_Nil [of conv]
  by (meson prefix_imp_sublist)

theorem system_turn_stays_first_witness:
  "produced
     \<lparr>userId = JStr ''default'', lastProject = JNull, lastTask = JStr ''hello'',
      conversation =
        [\<lparr>role = ''system'', content = persona_preamble @ [CHR 0x0A, CHR 0x0A]
            @ ''Respond in English, friendly Kenyan developer tone.''\<rparr>,
         \<lparr>role = ''user'', content = ''hello''\<rparr>,
         \<lparr>role = ''assistant'', content = ''Hi''\<rparr>]\<rparr>
   \<and> sublist persona_preamble
        (persona_preamble @ [CHR 0x0A, CHR 0x0A]
           @ ''Respond in English, friendly Kenyan developer tone.'')
   \<and> [Suc 0, 2, 3] \<noteq> [] \<and> hd (limit_history [Suc 0, 2, 3]) = hd [Suc 0, 2, 3]"
proof -
  let ?m = "\<lparr>userId = JStr ''default'', lastProject = JNull, lastTask = JStr ''hello'',
      conversation =
        [\<lparr>role = ''system'', content = persona_preamble @ [CHR 0x0A, CHR 0x0A]
            @ ''Respond in English, friendly Kenyan developer tone.''\<rparr>,
         \<lparr>role = ''user'', content = ''hello''\<rparr>,
         \<lparr>role = ''assistant'', content = ''Hi''\<rparr>]\<rparr>"
  have p: "produced ?m"
  proof (rule produced.written)
    show "\<forall>u m. memory_dir (test_env (Some ''sk'') (\<lambda>u. None) (upstream_says ''Hi'')) u
              = Some (Record m) \<longrightarrow> produced m"
      by (simp add: test_env_def)
    show "WriteFile (JStr ''default'') ?m
            \<in> set (snd (handler (test_env (Some ''sk'') (\<lambda>u. None) (upstream_says ''Hi''))
                      (post (JObj [(''prompt'', JStr ''hello'')]))))"
      unfolding example_run by simp
  qed
  have n: "[Suc 0, 2, 3] \<noteq> []" by simp
  note r = system_turn_stays_first [of ?m "[Suc 0, 2, 3]"]
  from r [THEN conjunct1, THEN mp, OF p]
  have "sublist persona_preamble
        (persona_preamble @ [CHR 0x0A, CHR 0x0A]
           @ ''Respond in English, friendly Kenyan developer tone.'')"
    by auto
  with p n r [THEN conjunct2, THEN mp, OF n] show ?thesis by blast
qed

text \<open>
  What a request persists of the system turn: where the loaded record starts with a
  system turn, the record written after a successful request carries that turn with the
  tone instruction appended to its content.
\<close>

lemma persisted_system_content:
  assumes "valid_post env req body p"
    and "DEEPSEEK_API_KEY env = Some k" "k \<noteq> []"
    and "conversation (read_record (memory_dir env) (userId_of body)) = t # ts"
    and "role t = ''system''"
    and "axios_post env (tuned (t # ts) p) = Inr data" "assistantReply data = JStr s"
  shows "\<exists>m. WriteFile (userId_of body) m \<in> set (snd (handler env req))
     \<and> content (hd (conversation m))
         = content t @ [CHR 0x0A, CHR 0x0A] @ languageInstruction (classify p)"
proof -
  let ?t' = "t\<lparr>content := content t @ [CHR 0x0A, CHR 0x0A] @ languageInstruction (classify p)\<rparr>"
  let ?rest = "ts @ [\<lparr>role = ''user'', content = p\<rparr>] @ [\<lparr>role = ''assistant'', content = cleanText s\<rparr>]"
  have sent: "tuned (t # ts) p = tuned (conversation (read_record (memory_dir env) (userId_of body))) p"
    by (simp add: assms(4))
  have "tuned (t # ts) p @ [\<lparr>role = ''assistant'', content = cleanText s\<rparr>] = ?t' # ?rest"
    using assms(5) by (simp add: tuned_Cons)
  moreover from limit_history_Cons [of ?t' ?rest] obtain ys where
    "limit_history (?t' # ?rest) = ?t' # ys" by blast
  ultimately have "hd (limit_history (tuned (t # ts) p
      @ [\<lparr>role = ''assistant'', content = cleanText s\<rparr>])) = ?t'"
    by simp
  then show ?thesis
    unfolding handler_success(1) [OF assms(1-3) sent assms(6,7)] by simp
qed

text \<open>
  Claim C4, which the code does not satisfy. The first request of a user, with the
  prompt \<open>hello\<close> and the upstream reply \<open>Hi\<close>: the record that is written has a system
  turn whose content is the persona preamble followed by the tone instruction, which is
  not the persona preamble.
\<close>

theorem tone_instruction_is_persisted:
  "snd (handler (test_env (Some ''sk'') (\<lambda>u. None) (upstream_says ''Hi''))
          (post (JObj [(''prompt'', JStr ''hello'')]))) =
     [ReadFile (JStr ''default''),
      PostUpstream
        [\<lparr>role = ''system'', content = persona_preamble @ [CHR 0x0A, CHR 0x0A]
            @ ''Respond in English, friendly Kenyan developer tone.''\<rparr>,
         \<lparr>role = ''user'', content = ''hello''\<rparr>],
      WriteFile (JStr ''default'')
        \<lparr>userId = JStr ''default'', lastProject = JNull, lastTask = JStr ''hello'',
         conversation =
           [\<lparr>role = ''system'', content = persona_preamble @ [CHR 0x0A, CHR 0x0A]
               @ ''Respond in English, friendly Kenyan developer tone.''\<rparr>,
            \<lparr>role = ''user'', content = ''hello''\<rparr>,
            \<lparr>role = ''assistant'', content = ''Hi''\<rparr>]\<rparr>]
   \<and> persona_preamble @ [CHR 0x0A, CHR 0x0A]
         @ ''Respond in English, friendly Kenyan developer tone.'' \<noteq> persona_preamble"
  using example_run by simp

text \<open>
  A POST request whose body is there, whose user id can be converted to a string and
  whose prompt is missing, \<open>null\<close>, empty or white space only is answered with 400 and
  has no effect.
\<close>

lemma missing_prompt_rejected:
  assumes "req_method req = ''POST''" "read_body env req = Continue body" "\<not> nullish body"
    and "\<not> toString_throws (userId_of body)"
    and "nullish (property body ''prompt'') \<or> (\<exists>p. property body ''prompt'' = JStr p \<and> trim p = [])"
  shows "handler env req = (missing_prompt, [])"
proof -
  from assms(5) have "check_prompt (property body ''prompt'') = Respond missing_prompt"
    by (cases "property body ''prompt''") (auto simp: check_prompt_def)
  with assms(1-4) show ?thesis
    by (simp add: handler_def try_block_def destructure_def log_userId_def)
qed

text \<open>
  Claim C5, which the code does not satisfy. A POST request without a body, or with the
  body \<open>null\<close>, has no prompt; destructuring the body throws, and the answer is 500 with
  the generic message instead of 400. It has no effect.
\<close>

theorem post_without_body_is_server_error:
  "handler env (post JUndefined) =
     (\<lparr>res_status = 500,
       res_json = JObj
         [(''error'', JStr ''Server error. Please try again.''),
          (''details'',
             if NODE_ENV env = Some ''development''
             then JStr ''Cannot destructure property 'prompt' of 'body' as it is undefined.''
             else JUndefined)]\<rparr>, [])
   \<and> handler env (post JNull) =
     (\<lparr>res_status = 500,
       res_json = JObj
         [(''error'', JStr ''Server error. Please try again.''),
          (''details'',
             if NODE_ENV env = Some ''development''
             then JStr ''Cannot destructure property 'prompt' of 'body' as it is null.''
             else JUndefined)]\<rparr>, [])"
  by (simp add: handler_def post_def try_block_def read_body_def destructure_def
        catch_block_def type_error_def)

text \<open>
  Claim C6 as it stands fails where the handler throws before it looks at the
  credential. With the prompt \<open>hello\<close>, no credential and the user id
  \<^verbatim>\<open>{"toString": null}\<close>, the log line 163 cannot convert the user id to a string: the
  answer is 500 with the generic message, and no file is read. With the same prompt, no
  credential and a stored file that holds \<^verbatim>\<open>{}\<close>, line 184 throws on the missing
  conversation, and the answer is the generic one again.
\<close>

theorem configuration_error_is_preempted:
  "prompt_post (test_env None (\<lambda>u. None) (upstream_says ''Hi''))
     (post (JObj [(''prompt'', JStr ''hello''), (''userId'', JObj [(''toString'', JNull)])]))
     (JObj [(''prompt'', JStr ''hello''), (''userId'', JObj [(''toString'', JNull)])]) ''hello''
   \<and> DEEPSEEK_API_KEY (test_env None (\<lambda>u. None) (upstream_says ''Hi'')) = None
   \<and> handler (test_env None (\<lambda>u. None) (upstream_says ''Hi''))
       (post (JObj [(''prompt'', JStr ''hello''), (''userId'', JObj [(''toString'', JNull)])])) =
     (\<lparr>res_status = 500,
       res_json = JObj
         [(''error'', JStr ''Server error. Please try again.''), (''details'', JUndefined)]\<rparr>,
      [])
   \<and> prompt_post
       ((test_env None (\<lambda>u. None) (upstream_says ''Hi''))
          \<lparr>memory_dir := \<lambda>u. Some (Unusable
             ''Cannot read properties of undefined (reading 'push')'')\<rparr>)
       (post (JObj [(''prompt'', JStr ''hello'')])) (JObj [(''prompt'', JStr ''hello'')]) ''hello''
   \<and> handler
       ((test_env None (\<lambda>u. None) (upstream_says ''Hi''))
          \<lparr>memory_dir := \<lambda>u. Some (Unusable
             ''Cannot read properties of undefined (reading 'push')'')\<rparr>)
       (post (JObj [(''prompt'', JStr ''hello'')])) =
     (\<lparr>res_status = 500,
       res_json = JObj
         [(''error'', JStr ''Server error. Please try again.''), (''details'', JUndefined)]\<rparr>,
      [ReadFile (JStr ''default'')])"
proof -
  let ?E = "test_env None (\<lambda>u. None) (upstream_says ''Hi'')"
  let ?B = "JObj [(''prompt'', JStr ''hello''), (''userId'', JObj [(''toString'', JNull)])]"
  let ?msg = "''Cannot read properties of undefined (reading 'push')''"
  let ?E' = "?E\<lparr>memory_dir := \<lambda>u. Some (Unusable ?msg)\<rparr>"
  let ?B' = "JObj [(''prompt'', JStr ''hello'')]"
  have a: "prompt_post ?E (post ?B) ?B ''hello''"
    by (simp add: prompt_post_def test_env_def post_def read_body_def property_def trim_hello)
  have k: "DEEPSEEK_API_KEY ?E = None" by (simp add: test_env_def)
  have u: "toString_throws (userId_of ?B)" by (simp add: userId_of_def property_def)
  have t: "try_block ?E (post ?B)
      = (Inl (type_error ''Cannot convert object to primitive value''), [])"
    using a u by (simp add: prompt_post_def try_block_prompt)
  have c: "catch_block ?E (type_error ''Cannot convert object to primitive value'') =
     \<lparr>res_status = 500,
       res_json = JObj
         [(''error'', JStr ''Server error. Please try again.''), (''details'', JUndefined)]\<rparr>"
    by (simp add: catch_block_def type_error_def test_env_def)
  have h: "handler ?E (post ?B) =
     (\<lparr>res_status = 500,
       res_json = JObj
         [(''error'', JStr ''Server error. Please try again.''), (''details'', JUndefined)]\<rparr>,
      [])"
    using handler_throws [OF _ t] c by (simp add: post_def)
  have a': "prompt_post ?E' (post ?B') ?B' ''hello''"
    by (simp add: prompt_post_def test_env_def post_def read_body_def property_def trim_hello)
  have t': "try_block ?E' (post ?B') = (Inl (type_error ?msg), [ReadFile (JStr ''default'')])"
    using a' by (simp add: prompt_post_def try_block_prompt userId_hello converse_unusable)
  have c': "catch_block ?E' (type_error ?msg) =
     \<lparr>res_status = 500,
       res_json = JObj
         [(''error'', JStr ''Server error. Please try again.''), (''details'', JUndefined)]\<rparr>"
    by (simp add: catch_block_def type_error_def test_env_def)
  have h': "handler ?E' (post ?B') =
     (\<lparr>res_status = 500,
       res_json = JObj
         [(''error'', JStr ''Server error. Please try again.''), (''details'', JUndefined)]\<rparr>,
      [ReadFile (JStr ''default'')])"
    using handler_throws [OF _ t'] c' by (simp add: post_def)
  from a k h a' h' show ?thesis by (intro conjI)
qed

text \<open>
  Claim C6, amended. A POST request with a valid prompt, when the credential is absent,
  is answered with 500, and the upstream service is not called and nothing is written.
  When moreover the user id can be converted to a string and the file of the user is
  usable, the answer carries the configuration message, and the file of the user was
  read and nothing else was done.
\<close>

theorem missing_credential_answer:
  "(prompt_post env req body p \<and> DEEPSEEK_API_KEY env = None
    \<longrightarrow> res_status (fst (handler env req)) = 500
      \<and> (\<forall>messages. PostUpstream messages \<notin> set (snd (handler env req)))
      \<and> (\<forall>u m. WriteFile u m \<notin> set (snd (handler env req))))
   \<and> (valid_post env req body p \<and> DEEPSEEK_API_KEY env = None
    \<longrightarrow> handler env req =
        (\<lparr>res_status = 500,
          res_json = JObj
            [(''error'', JStr ''Server configuration error''),
             (''message'', JStr ''API key is not configured'')]\<rparr>,
         [ReadFile (userId_of body)]))"
proof (intro conjI impI; elim conjE)
  assume v: "valid_post env req body p" and k: "DEEPSEEK_API_KEY env = None"
  from v have u: "usable (memory_dir env (userId_of body))" by (simp add: valid_post_def)
  show "handler env req =
        (\<lparr>res_status = 500,
          res_json = JObj
            [(''error'', JStr ''Server configuration error''),
             (''message'', JStr ''API key is not configured'')]\<rparr>,
         [ReadFile (userId_of body)])"
    using k unfolding handler_valid [OF v]
    by (simp add: converse_eq [OF u] config_error_def)
next
  assume a: "prompt_post env req body p" and k: "DEEPSEEK_API_KEY env = None"
  let ?uid = "userId_of body"
  from a have post: "req_method req = ''POST''" by (simp add: prompt_post_def)
  from a have t: "try_block env req =
     (if toString_throws ?uid
      then (Inl (type_error ''Cannot convert object to primitive value''), [])
      else converse env p (property body ''project'') ?uid)"
    by (simp add: prompt_post_def try_block_prompt)
  have "res_status (fst (handler env req)) = 500
      \<and> set (snd (handler env req)) \<subseteq> {ReadFile ?uid}"
  proof (cases "toString_throws ?uid")
    case True
    with t have "try_block env req
        = (Inl (type_error ''Cannot convert object to primitive value''), [])" by simp
    from handler_throws [OF post this] show ?thesis
      by (simp add: catch_block_status type_error_def)
  next
    case False
    with t have c: "try_block env req = converse env p (property body ''project'') ?uid"
      by simp
    show ?thesis
    proof (cases "usable (memory_dir env ?uid)")
      case True
      from converse_eq [OF True] k
      have "try_block env req = (Inr config_error, [ReadFile ?uid])" by (simp add: c)
      with post show ?thesis by (simp add: handler_def config_error_def)
    next
      case False
      then obtain msg where "memory_dir env ?uid = Some (Unusable msg)"
        by (auto simp: usable_def split: option.splits stored.splits)
      then have "try_block env req = (Inl (type_error msg), [ReadFile ?uid])"
        by (simp add: c converse_unusable)
      from handler_throws [OF post this] show ?thesis
        by (simp add: catch_block_status type_error_def)
    qed
  qed
  then show "res_status (fst (handler env req)) = 500"
    "\<forall>messages. PostUpstream messages \<notin> set (snd (handler env req))"
    "\<forall>u m. WriteFile u m \<notin> set (snd (handler env req))"
    by auto
qed

theorem missing_credential_answer_witness:
  "valid_post (test_env None (\<lambda>u. None) (upstream_says ''Hi''))
     (post (JObj [(''prompt'', JStr ''hello'')])) (JObj [(''prompt'', JStr ''hello'')]) ''hello''
   \<and> prompt_post (test_env None (\<lambda>u. None) (upstream_says ''Hi''))
     (post (JObj [(''prompt'', JStr ''hello'')])) (JObj [(''prompt'', JStr ''hello'')]) ''hello''
   \<and> DEEPSEEK_API_KEY (test_env None (\<lambda>u. None) (upstream_says ''Hi'')) = None
   \<and> res_status (fst (handler (test_env None (\<lambda>u. None) (upstream_says ''Hi''))
         (post (JObj [(''prompt'', JStr ''hello'')])))) = 500
   \<and> handler (test_env None (\<lambda>u. None) (upstream_says ''Hi''))
       (post (JObj [(''prompt'', JStr ''hello'')])) =
     (\<lparr>res_status = 500,
       res_json = JObj
         [(''error'', JStr ''Server configuration error''),
          (''message'', JStr ''API key is not configured'')]\<rparr>,
      [ReadFile (JStr ''default'')])"
proof -
  let ?E = "test_env None (\<lambda>u. None) (upstream_says ''Hi'')"
  let ?B = "JObj [(''prompt'', JStr ''hello'')]"
  have k: "DEEPSEEK_API_KEY ?E = None" by (simp add: test_env_def)
  have v: "valid_post ?E (post ?B) ?B ''hello''" by (rule valid_post_hello)
  then have a: "prompt_post ?E (post ?B) ?B ''hello''"
    by (simp add: valid_post_def prompt_post_def)
  from a k have ak: "prompt_post ?E (post ?B) ?B ''hello'' \<and> DEEPSEEK_API_KEY ?E = None" ..
  from v k have vk: "valid_post ?E (post ?B) ?B ''hello'' \<and> DEEPSEEK_API_KEY ?E = None" ..
  note first = missing_credential_answer [THEN conjunct1, THEN mp, OF ak, THEN conjunct1]
  note second = missing_credential_answer [THEN conjunct2, THEN mp, OF vk]
  from v a k first second show ?thesis by (simp only: userId_hello simp_thms)
qed




text \<open>
  Claim C8 as it stands fails for the last class of failures. An upstream failure that
  is neither a 401, nor a 429, nor a timeout, and whose message contains \<open>ENOENT\<close>, is
  answered with 500 and the message \<open>File system error.\<close>, not with the generic
  message.
\<close>

theorem enoent_failure_has_its_own_message:
  "err_status \<lparr>err_status = None, err_code = Some ''ENOENT'',
                err_message = ''connect ENOENT /var/run/upstream.sock''\<rparr> \<noteq> Some 401
   \<and> err_status \<lparr>err_status = None, err_code = Some ''ENOENT'',
                err_message = ''connect ENOENT /var/run/upstream.sock''\<rparr> \<noteq> Some 429
   \<and> err_code \<lparr>err_status = None, err_code = Some ''ENOENT'',
                err_message = ''connect ENOENT /var/run/upstream.sock''\<rparr> \<noteq> Some ''ECONNABORTED''
   \<and> fst (handler
        (test_env (Some ''sk'') (\<lambda>u. None)
           (upstream_fails \<lparr>err_status = None, err_code = Some ''ENOENT'',
              err_message = ''connect ENOENT /var/run/upstream.sock''\<rparr>))
        (post (JObj [(''prompt'', JStr ''hello'')]))) =
       \<lparr>res_status = 500,
        res_json = JObj [(''error'', JStr ''File system error.''), (''details'', JUndefined)]\<rparr>
   \<and> ''File system error.'' \<noteq> ''Server error. Please try again.''"
proof -
  let ?e = "\<lparr>err_status = None, err_code = Some ''ENOENT'',
              err_message = ''connect ENOENT /var/run/upstream.sock''\<rparr>"
  let ?E = "test_env (Some ''sk'') (\<lambda>u. None) (upstream_fails ?e)"
  let ?B = "JObj [(''prompt'', JStr ''hello'')]"
  note f = failing_run [of ?e "tuned (conversation (read_record (memory_dir ?E) (userId_of ?B))) ''hello''"]
  have t: "try_block ?E (post ?B) =
      (Inl ?e, [ReadFile (userId_of ?B),
                PostUpstream (tuned (conversation (read_record (memory_dir ?E) (userId_of ?B))) ''hello'')])"
    using f by (intro upstream_failure_thrown) (elim conjE, assumption)+
  have c: "catch_block ?E ?e =
       \<lparr>res_status = 500,
        res_json = JObj [(''error'', JStr ''File system error.''), (''details'', JUndefined)]\<rparr>"
    by (simp add: catch_block_def test_env_def)
  have "req_method (post ?B) = ''POST''" by (simp add: post_def)
  from handler_throws [OF this t] c show ?thesis by simp
qed

text \<open>
  Claim C8, amended. An upstream failure of a POST request that reaches the conversation
  of its user with a credential is thrown in the \<^verbatim>\<open>try\<close> block after the record was
  read and the upstream service was called, and nothing is written. Every failure thrown there, from upstream
  or from inside, is answered by its class: 401 with a hint to check the credential for
  an upstream 401; 429 for an upstream 429; 408 for a timeout (code \<open>ECONNABORTED\<close>);
  500 with \<open>File system error.\<close> for any other failure whose message contains
  \<open>ENOENT\<close>; 500 with the generic message for all the rest.
\<close>

theorem failure_is_mapped:
  "(valid_post env req body p \<and> DEEPSEEK_API_KEY env = Some k \<and> k \<noteq> []
      \<and> sent = tuned (conversation (read_record (memory_dir env) (userId_of body))) p
      \<and> axios_post env sent = Inl e
    \<longrightarrow> try_block env req = (Inl e, [ReadFile (userId_of body), PostUpstream sent]))
   \<and> (req_method req = ''POST'' \<and> try_block env req = (Inl e', effects)
    \<longrightarrow> snd (handler env req) = effects
      \<and> res_status (fst (handler env req)) =
          (if err_status e' = Some 401 then 401
           else if err_status e' = Some 429 then 429
           else if err_code e' = Some ''ECONNABORTED'' then 408
           else 500)
      \<and> property (res_json (fst (handler env req))) ''error'' = JStr
          (if err_status e' = Some 401 then ''API key is invalid or missing.''
           else if err_status e' = Some 429 then ''Rate limit exceeded. Please try again later.''
           else if err_code e' = Some ''ECONNABORTED'' then ''Request timeout. Please try again.''
           else if str_includes (err_message e') ''ENOENT'' then ''File system error.''
           else ''Server error. Please try again.'')
      \<and> property (res_json (fst (handler env req))) ''details'' =
          (if err_status e' = Some 401
           then JStr ''Check your DEEPSEEK_API_KEY environment variable''
           else if NODE_ENV env = Some ''development'' then JStr (err_message e')
           else JUndefined))"
proof (intro conjI impI; (elim conjE)?)
  assume "valid_post env req body p" "DEEPSEEK_API_KEY env = Some k" "k \<noteq> []"
    "sent = tuned (conversation (read_record (memory_dir env) (userId_of body))) p"
    "axios_post env sent = Inl e"
  then show "try_block env req = (Inl e, [ReadFile (userId_of body), PostUpstream sent])"
    by (rule upstream_failure_thrown)
next
  assume a: "req_method req = ''POST''" "try_block env req = (Inl e', effects)"
  note h = handler_throws [OF a]
  show "snd (handler env req) = effects" by (simp add: h)
  show "res_status (fst (handler env req)) =
          (if err_status e' = Some 401 then 401
           else if err_status e' = Some 429 then 429
           else if err_code e' = Some ''ECONNABORTED'' then 408
           else 500)"
    unfolding h fst_conv by (rule catch_block_status)
  show "property (res_json (fst (handler env req))) ''error'' = JStr
          (if err_status e' = Some 401 then ''API key is invalid or missing.''
           else if err_status e' = Some 429 then ''Rate limit exceeded. Please try again later.''
           else if err_code e' = Some ''ECONNABORTED'' then ''Request timeout. Please try again.''
           else if str_includes (err_message e') ''ENOENT'' then ''File system error.''
           else ''Server error. Please try again.'')"
    unfolding h fst_conv by (rule catch_block_error)
  show "property (res_json (fst (handler env req))) ''details'' =
          (if err_status e' = Some 401
           then JStr ''Check your DEEPSEEK_API_KEY environment variable''
           else if NODE_ENV env = Some ''development'' then JStr (err_message e')
           else JUndefined)"
    unfolding h fst_conv by (rule catch_block_details)
qed


theorem failure_is_mapped_witness:
  "res_status (fst (handler
      (test_env (Some ''sk'') (\<lambda>u. None)
         (upstream_fails \<lparr>err_status = Some 401, err_code = Some ''ERR_BAD_REQUEST'',
            err_message = ''Request failed with status code 401''\<rparr>))
      (post (JObj [(''prompt'', JStr ''hello'')])))) = 401
   \<and> property (res_json (fst (handler
      (test_env (Some ''sk'') (\<lambda>u. None)
         (upstream_fails \<lparr>err_status = Some 401, err_code = Some ''ERR_BAD_REQUEST'',
            err_message = ''Request failed with status code 401''\<rparr>))
      (post (JObj [(''prompt'', JStr ''hello'')]))))) ''details''
       = JStr ''Check your DEEPSEEK_API_KEY environment variable''
   \<and> res_status (fst (handler
      (test_env (Some ''sk'') (\<lambda>u. None)
         (upstream_fails \<lparr>err_status = Some 429, err_code = Some ''ERR_BAD_REQUEST'',
            err_message = ''Request failed with status code 429''\<rparr>))
      (post (JObj [(''prompt'', JStr ''hello'')])))) = 429
   \<and> res_status (fst (handler
      (test_env (Some ''sk'') (\<lambda>u. None)
         (upstream_fails \<lparr>err_status = None, err_code = Some ''ECONNABORTED'',
            err_message = ''timeout of 30000ms exceeded''\<rparr>))
      (post (JObj [(''prompt'', JStr ''hello'')])))) = 408
   \<and> res_status (fst (handler
      (test_env (Some ''sk'') (\<lambda>u. None)
         (upstream_fails \<lparr>err_status = Some 503, err_code = Some ''ERR_BAD_RESPONSE'',
            err_message = ''Request failed with status code 503''\<rparr>))
      (post (JObj [(''prompt'', JStr ''hello'')])))) = 500
   \<and> property (res_json (fst (handler
      (test_env (Some ''sk'') (\<lambda>u. None)
         (upstream_fails \<lparr>err_status = Some 503, err_code = Some ''ERR_BAD_RESPONSE'',
            err_message = ''Request failed with status code 503''\<rparr>))
      (post (JObj [(''prompt'', JStr ''hello'')]))))) ''error''
       = JStr ''Server error. Please try again.''"
proof -
  let ?B = "JObj [(''prompt'', JStr ''hello'')]"
  have run:
    "res_status (fst (handler (test_env (Some ''sk'') (\<lambda>u. None) (upstream_fails e)) (post ?B))) =
          (if err_status e = Some 401 then 401
           else if err_status e = Some 429 then 429
           else if err_code e = Some ''ECONNABORTED'' then 408
           else 500)
     \<and> property (res_json (fst (handler (test_env (Some ''sk'') (\<lambda>u. None) (upstream_fails e))
            (post ?B)))) ''error'' = JStr
          (if err_status e = Some 401 then ''API key is invalid or missing.''
           else if err_status e = Some 429 then ''Rate limit exceeded. Please try again later.''
           else if err_code e = Some ''ECONNABORTED'' then ''Request timeout. Please try again.''
           else if str_includes (err_message e) ''ENOENT'' then ''File system error.''
           else ''Server error. Please try again.'')
     \<and> property (res_json (fst (handler (test_env (Some ''sk'') (\<lambda>u. None) (upstream_fails e))
            (post ?B)))) ''details'' =
          (if err_status e = Some 401
           then JStr ''Check your DEEPSEEK_API_KEY environment variable''
           else if NODE_ENV (test_env (Some ''sk'') (\<lambda>u. None) (upstream_fails e))
                     = Some ''development'' then JStr (err_message e)
           else JUndefined)" for e
  proof -
    let ?E = "test_env (Some ''sk'') (\<lambda>u. None) (upstream_fails e)"
    let ?T = "tuned (conversation (read_record (memory_dir ?E) (userId_of ?B))) ''hello''"
    note thrown = failure_is_mapped [THEN conjunct1, THEN mp, OF failing_run [of e ?T]]
    have "req_method (post ?B) = ''POST''" by (simp add: post_def)
    with thrown have "req_method (post ?B) = ''POST'' \<and> try_block ?E (post ?B)
        = (Inl e, [ReadFile (userId_of ?B), PostUpstream ?T])" by (intro conjI)
    from failure_is_mapped [THEN conjunct2, THEN mp, OF this]
    show ?thesis by (elim conjE) (intro conjI)
  qed
  show ?thesis
    using run [of "\<lparr>err_status = Some 401, err_code = Some ''ERR_BAD_REQUEST'',
            err_message = ''Request failed with status code 401''\<rparr>"]
      run [of "\<lparr>err_status = Some 429, err_code = Some ''ERR_BAD_REQUEST'',
            err_message = ''Request failed with status code 429''\<rparr>"]
      run [of "\<lparr>err_status = None, err_code = Some ''ECONNABORTED'',
            err_message = ''timeout of 30000ms exceeded''\<rparr>"]
      run [of "\<lparr>err_status = Some 503, err_code = Some ''ERR_BAD_RESPONSE'',
            err_message = ''Request failed with status code 503''\<rparr>"]
    by simp
qed

end
